theory Spec2Isabelle
  imports Complex_Main "HOL-Library.Log_Nat"
begin

section \<open>The physics core of physicsEngine.py\<close>

text \<open>
  The scalar type of the source is Python's \<open>float\<close>. The embedding keeps it as a type
  parameter \<open>'a\<close> and uses only the operations the source uses (\<open>+\<close>, \<open>-\<close>, \<open>*\<close>,
  \<open>/\<close>, \<open>\<le>\<close>, comparison with zero), so that every definition can be read both over
  exact arithmetic (\<open>real\<close>) and over the rounding arithmetic of floats (\<open>double\<close>,
  below). Results that need no law of arithmetic are stated for every scalar type; results
  that need one say so in their type or in a hypothesis.
  \<open>math.hypot\<close> belongs to the Python library, not to the source: it is a parameter
  of the functions that call it.
\<close>

subsection \<open>Errors and outcomes\<close>

text \<open>
  The exceptions the source can raise: \<open>ValueError\<close> with its message (raised by
  \<open>get_attach_point\<close> and \<open>attach_to\<close>), \<open>ZeroDivisionError\<close> (Python's \<open>/\<close> on a
  zero divisor) and \<open>TypeError\<close> (arithmetic on \<open>None\<close>).
\<close>

datatype error = ValueError string | ZeroDivisionError | TypeError

text \<open>
  A method that mutates objects either returns (\<open>Done\<close>) or raises (\<open>Raised\<close>); in both
  cases the heap it leaves behind is part of the outcome, so that what a failing call has
  already written stays visible.
\<close>

datatype 'h outcome = Done 'h | Raised error 'h

definition and_then :: "'h outcome \<Rightarrow> ('h \<Rightarrow> 'h outcome) \<Rightarrow> 'h outcome" where
  "and_then r f = (case r of Done h \<Rightarrow> f h | Raised e h \<Rightarrow> Raised e h)"

definition py_div :: "'a::{inverse,zero} \<Rightarrow> 'a \<Rightarrow> error + 'a" where
  "py_div x y = (if y = 0 then Inl ZeroDivisionError else Inr (x / y))"

subsection \<open>Basic 2D vector helpers\<close>

type_synonym 'a Vector2 = "'a \<times> 'a"

definition v_add :: "'a::plus Vector2 \<Rightarrow> 'a Vector2 \<Rightarrow> 'a Vector2" where
  "v_add u w = (fst u + fst w, snd u + snd w)"

definition v_sub :: "'a::minus Vector2 \<Rightarrow> 'a Vector2 \<Rightarrow> 'a Vector2" where
  "v_sub u w = (fst u - fst w, snd u - snd w)"

definition v_scale :: "'a::times Vector2 \<Rightarrow> 'a \<Rightarrow> 'a Vector2" where
  "v_scale u s = (fst u * s, snd u * s)"

definition v_len :: "('a \<Rightarrow> 'a \<Rightarrow> 'a) \<Rightarrow> 'a Vector2 \<Rightarrow> 'a" where
  "v_len hypot u = hypot (fst u) (snd u)"

definition v_zero :: "'a::zero Vector2" where
  "v_zero = (0, 0)"

text \<open>\<open>math.hypot\<close> over exact arithmetic.\<close>

definition hypot_real :: "real \<Rightarrow> real \<Rightarrow> real" where
  "hypot_real x y = sqrt (x * x + y * y)"

subsection \<open>Physics objects\<close>

text \<open>
  The classes \<open>PhysicsObject\<close>, \<open>Anchor\<close>, \<open>Ball\<close> and \<open>Box\<close> differ in the fields they add
  (\<open>radius\<close>; \<open>width\<close> and \<open>height\<close>) and in \<open>get_attach_point\<close>.
\<close>

datatype 'a shape = Plain | Anchor | Ball (radius: 'a) | Box (width: 'a) (height: 'a)

fun class_name :: "'a shape \<Rightarrow> string" where
  "class_name Plain = ''PhysicsObject''"
| "class_name Anchor = ''Anchor''"
| "class_name (Ball r) = ''Ball''"
| "class_name (Box w h) = ''Box''"

text \<open>
  Objects are mutable and shared: a spring and an attachment hold references to them. An
  object is named by its identity, and the heap gives the current fields of every object.
  A Python reference always designates a live object, so the heap is a total function.
\<close>

type_synonym obj_id = nat

record 'a PhysicsObject =
  position :: "'a Vector2"
  velocity :: "'a Vector2"
  mass :: 'a
  color :: "int \<times> int \<times> int"
  fixed :: bool
  attached_to :: "obj_id option"
  attached_part :: "string option"
  attached_offset :: "'a Vector2 option"
  previous_fixed_state :: "bool option"
  shape :: "'a shape"

type_synonym 'a heap = "obj_id \<Rightarrow> 'a PhysicsObject"

definition apply_force ::
  "'a::{plus,times,inverse,zero,ord} heap \<Rightarrow> obj_id \<Rightarrow> 'a Vector2 \<Rightarrow> 'a \<Rightarrow> 'a heap outcome" where
  "apply_force h self force dt =
     (if fixed (h self) \<or> attached_to (h self) \<noteq> None then Done h
      else if mass (h self) \<le> 0 then Done h
      else case py_div (fst force) (mass (h self)) of
             Inl e \<Rightarrow> Raised e h
           | Inr ax \<Rightarrow>
               (case py_div (snd force) (mass (h self)) of
                  Inl e \<Rightarrow> Raised e h
                | Inr ay \<Rightarrow>
                    Done (h(self := (h self)\<lparr>velocity :=
                      (fst (velocity (h self)) + ax * dt, snd (velocity (h self)) + ay * dt)\<rparr>))))"

text \<open>The quote character of the messages.\<close>

definition quote :: string where
  "quote = [CHR 0x27]"

definition no_attach_point :: "string \<Rightarrow> string \<Rightarrow> error" where
  "no_attach_point cls part =
     ValueError (cls @ '' has no attach point named '' @ quote @ part @ quote)"

text \<open>
  \<open>get_attach_point\<close> of the base class and its three overrides. The literal \<open>2.0\<close> of
  \<open>Box\<close> is written \<open>1 + 1\<close>, which names the same number in every arithmetic.
\<close>

definition get_attach_point ::
  "'a::{plus,minus,inverse,one} PhysicsObject \<Rightarrow> string \<Rightarrow> error + 'a Vector2" where
  "get_attach_point ob part =
     (case shape ob of
        Plain \<Rightarrow>
          if part = ''center'' then Inr (position ob)
          else Inl (no_attach_point (class_name (shape ob)) part)
      | Anchor \<Rightarrow>
          if part = ''anchor'' \<or> part = ''center'' then Inr (position ob)
          else Inl (no_attach_point ''Anchor'' part)
      | Ball r \<Rightarrow>
          if part = ''center'' then Inr (position ob)
          else Inl (no_attach_point ''Ball'' part)
      | Box w h \<Rightarrow>
          (let cx = fst (position ob); cy = snd (position ob);
               hw = w / (1 + 1); hh = h / (1 + 1);
               parts = [(''center'', (cx, cy)),
                        (''top_left'', (cx - hw, cy - hh)),
                        (''top_right'', (cx + hw, cy - hh)),
                        (''bottom_left'', (cx - hw, cy + hh)),
                        (''bottom_right'', (cx + hw, cy + hh))]
           in case map_of parts part of
                Some p \<Rightarrow> Inr p
              | None \<Rightarrow> Inl (no_attach_point ''Box'' part)))"

definition integrate ::
  "'a::{plus,minus,times,inverse,one} heap \<Rightarrow> obj_id \<Rightarrow> 'a \<Rightarrow> 'a heap outcome" where
  "integrate h self dt =
     (case attached_to (h self) of
        Some target \<Rightarrow>
          (let part = (case attached_part (h self) of
                         None \<Rightarrow> ''center''
                       | Some p \<Rightarrow> if p = [] then ''center'' else p)
           in case get_attach_point (h target) part of
                Inl e \<Rightarrow> Raised e h
              | Inr attach_point \<Rightarrow>
                  (let h1 = h(self := (h self)\<lparr>position :=
                              (case attached_offset (h self) of
                                 None \<Rightarrow> attach_point
                               | Some off \<Rightarrow> v_add attach_point off)\<rparr>)
                   in Done (h1(self := (h1 self)\<lparr>velocity := velocity (h1 target)\<rparr>))))
      | None \<Rightarrow>
          if fixed (h self) then Done h
          else Done (h(self := (h self)\<lparr>position :=
                 (fst (position (h self)) + fst (velocity (h self)) * dt,
                  snd (position (h self)) + snd (velocity (h self)) * dt)\<rparr>)))"

definition attach_to ::
  "'a::{plus,minus,inverse,one} heap \<Rightarrow> obj_id \<Rightarrow> obj_id option \<Rightarrow> string \<Rightarrow> 'a heap outcome" where
  "attach_to h self target target_part =
     (case target of
        None \<Rightarrow> Raised (ValueError ''target must be a PhysicsObject'') h
      | Some t \<Rightarrow>
          (case get_attach_point (h t) target_part of
             Inl e \<Rightarrow> Raised e h
           | Inr attach_point \<Rightarrow>
               (let h1 = h(self := (h self)\<lparr>previous_fixed_state := Some (fixed (h self))\<rparr>);
                    offset = v_sub (position (h1 self)) attach_point;
                    h2 = h1(self := (h1 self)\<lparr>attached_to := Some t\<rparr>);
                    h3 = h2(self := (h2 self)\<lparr>attached_part := Some target_part\<rparr>);
                    h4 = h3(self := (h3 self)\<lparr>attached_offset := Some offset\<rparr>)
                in Done (h4(self := (h4 self)\<lparr>fixed := True\<rparr>)))))"

definition detach :: "'a heap \<Rightarrow> obj_id \<Rightarrow> 'a heap outcome" where
  "detach h self =
     (case attached_to (h self) of
        None \<Rightarrow> Done h
      | Some old_target \<Rightarrow>
          (let h1 = h(self := (h self)\<lparr>velocity := velocity (h old_target)\<rparr>);
               h2 = h1(self := (h1 self)\<lparr>attached_to := None, attached_part := None,
                                          attached_offset := None\<rparr>)
           in case previous_fixed_state (h2 self) of
                Some f \<Rightarrow> Done (h2(self := (h2 self)\<lparr>fixed := f, previous_fixed_state := None\<rparr>))
              | None \<Rightarrow> Done (h2(self := (h2 self)\<lparr>fixed := False\<rparr>))))"

definition is_attached :: "'a PhysicsObject \<Rightarrow> bool" where
  "is_attached ob = (attached_to ob \<noteq> None)"

subsection \<open>Springs\<close>

text \<open>
  The fields \<open>a\<close> and \<open>b\<close> of \<open>RodSpring\<close> are the references \<open>obj_a\<close> and \<open>obj_b\<close>.
  \<open>__post_init__\<close> is \<open>post_init\<close>, and the method \<open>apply\<close> is \<open>apply_spring\<close>. A spring
  whose rest length is \<open>None\<close> after construction can only come from an assignment; the
  subtraction in \<open>apply\<close> then raises \<open>TypeError\<close>.
\<close>

record 'a RodSpring =
  obj_a :: obj_id
  obj_b :: obj_id
  rest_length :: "'a option"
  stiffness :: 'a
  damping :: 'a

definition post_init :: "('a \<Rightarrow> 'a \<Rightarrow> 'a) \<Rightarrow> 'a::minus heap \<Rightarrow> 'a RodSpring \<Rightarrow> 'a RodSpring" where
  "post_init hypot h c =
     (case rest_length c of
        None \<Rightarrow> c\<lparr>rest_length :=
                  Some (v_len hypot (v_sub (position (h (obj_b c))) (position (h (obj_a c)))))\<rparr>
      | Some r \<Rightarrow> c)"

definition apply_spring ::
  "('a \<Rightarrow> 'a \<Rightarrow> 'a) \<Rightarrow> 'a::{plus,minus,uminus,times,inverse,zero,one,ord} heap \<Rightarrow> 'a RodSpring \<Rightarrow> 'a
     \<Rightarrow> 'a heap outcome" where
  "apply_spring hypot h c dt =
     (let delta = v_sub (position (h (obj_b c))) (position (h (obj_a c)));
          dist = v_len hypot delta
      in if dist = 0 then Done h
         else case py_div (fst delta) dist of
                Inl e \<Rightarrow> Raised e h
              | Inr dx \<Rightarrow>
                  (case py_div (snd delta) dist of
                     Inl e \<Rightarrow> Raised e h
                   | Inr dy \<Rightarrow>
                       (case rest_length c of
                          None \<Rightarrow> Raised TypeError h
                        | Some rl \<Rightarrow>
                            (let dir_vec = (dx, dy);
                                 stretch = dist - rl;
                                 force_mag = (- stiffness c) * stretch;
                                 rel_vel = v_sub (velocity (h (obj_b c))) (velocity (h (obj_a c)));
                                 damping_force = (- damping c) *
                                   (fst rel_vel * fst dir_vec + snd rel_vel * snd dir_vec);
                                 total_force = force_mag + damping_force;
                                 force = v_scale dir_vec total_force
                             in and_then (apply_force h (obj_a c) (v_scale force (- 1)) dt)
                                  (\<lambda>h'. apply_force h' (obj_b c) force dt)))))"

subsection \<open>The simulation step\<close>

fun apply_all ::
  "('a \<Rightarrow> 'a \<Rightarrow> 'a) \<Rightarrow> 'a::{plus,minus,uminus,times,inverse,zero,one,ord} heap \<Rightarrow> 'a RodSpring list \<Rightarrow> 'a
     \<Rightarrow> 'a heap outcome" where
  "apply_all hypot h [] dt = Done h"
| "apply_all hypot h (c # cs) dt =
     and_then (apply_spring hypot h c dt) (\<lambda>h'. apply_all hypot h' cs dt)"

fun integrate_all ::
  "'a::{plus,minus,times,inverse,one} heap \<Rightarrow> obj_id list \<Rightarrow> 'a \<Rightarrow> 'a heap outcome" where
  "integrate_all h [] dt = Done h"
| "integrate_all h (ob # obs) dt =
     and_then (integrate h ob dt) (\<lambda>h'. integrate_all h' obs dt)"

definition step ::
  "('a \<Rightarrow> 'a \<Rightarrow> 'a) \<Rightarrow> 'a::{plus,minus,uminus,times,inverse,zero,one,ord} heap \<Rightarrow> obj_id list
     \<Rightarrow> 'a RodSpring list \<Rightarrow> 'a \<Rightarrow> 'a heap outcome" where
  "step hypot h objects constraints dt =
     and_then (apply_all hypot h constraints dt) (\<lambda>h'. integrate_all h' objects dt)"

subsection \<open>Observing outcomes, and the objects of the examples\<close>

fun heap_of :: "'h outcome \<Rightarrow> 'h" where
  "heap_of (Done h) = h"
| "heap_of (Raised e h) = h"

text \<open>The field defaults of the dataclass \<open>PhysicsObject\<close>, for an object of a given class.\<close>

definition default_object :: "'a::{zero,one} shape \<Rightarrow> 'a PhysicsObject" where
  "default_object sh =
     \<lparr>position = v_zero, velocity = v_zero, mass = 1, color = (0, 0, 0), fixed = False,
      attached_to = None, attached_part = None, attached_offset = None,
      previous_fixed_state = None, shape = sh\<rparr>"

text \<open>
  The heap of the examples, over exact arithmetic: object 10 is a fixed anchor at the origin
  with velocity \<open>(1/2, 0)\<close>, object 11 a free ball at \<open>(1, 0)\<close>, object 12 a box of
  width 2 and height 4 at the origin; every other object is a default \<open>PhysicsObject\<close>.
\<close>

definition ex_heap :: "real heap" where
  "ex_heap =
     (\<lambda>i. default_object Plain)
       (10 := (default_object Anchor)\<lparr>velocity := (1/2, 0), fixed := True\<rparr>,
        11 := (default_object (Ball (1/10)))\<lparr>position := (1, 0)\<rparr>,
        12 := default_object (Box 2 4))"

text \<open>The ball of the examples attached to the anchor, at the attach point \<open>anchor\<close>.\<close>

definition ex_attached :: "real heap" where
  "ex_attached = heap_of (attach_to ex_heap 11 (Some 10) ''anchor'')"

text \<open>The names each class resolves, as \<open>get_attach_point\<close> tests them.\<close>

fun attach_points :: "'a shape \<Rightarrow> string list" where
  "attach_points Plain = [''center'']"
| "attach_points Anchor = [''anchor'', ''center'']"
| "attach_points (Ball r) = [''center'']"
| "attach_points (Box w h) =
     [''center'', ''top_left'', ''top_right'', ''bottom_left'', ''bottom_right'']"

text \<open>
  The attached ball of the examples after it has moved, and that ball attached again, to the
  box, without a detach between.
\<close>

definition ex_moved :: "real heap" where
  "ex_moved = ex_attached(11 := (ex_attached 11)\<lparr>position := (3, 4), velocity := (1, 1)\<rparr>)"

definition ex_moved_reattached :: "real heap" where
  "ex_moved_reattached = heap_of (attach_to ex_moved 11 (Some 12) ''top_left'')"

text \<open>The invariant of an object: while the attachment is present, \<open>fixed\<close> is true.\<close>

definition fixed_while_attached :: "'a PhysicsObject \<Rightarrow> bool" where
  "fixed_while_attached ob = (attached_to ob \<noteq> None \<longrightarrow> fixed ob)"

text \<open>Two states of an object that differ at most in position and velocity.\<close>

definition same_but_motion :: "'a PhysicsObject \<Rightarrow> 'a PhysicsObject \<Rightarrow> bool" where
  "same_but_motion ob ob' = (ob' = ob\<lparr>position := position ob', velocity := velocity ob'\<rparr>)"

text \<open>
  The calls a driver can make on a heap: the methods, the step, and the assignment to the
  position or the velocity of an object (as the example driver of the source assigns
  \<open>anchor.velocity\<close>). A driver may catch an exception and go on, so a sequence of calls
  continues from the heap a raise leaves.
\<close>

datatype 'a operation =
    ApplyForce obj_id "'a Vector2" 'a
  | Integrate obj_id 'a
  | AttachTo obj_id "obj_id option" string
  | Detach obj_id
  | SpringApply "'a RodSpring" 'a
  | Step "obj_id list" "'a RodSpring list" 'a
  | SetPosition obj_id "'a Vector2"
  | SetVelocity obj_id "'a Vector2"

fun run_op ::
  "('a \<Rightarrow> 'a \<Rightarrow> 'a) \<Rightarrow> 'a::{plus,minus,uminus,times,inverse,zero,one,ord} heap \<Rightarrow> 'a operation
     \<Rightarrow> 'a heap outcome" where
  "run_op hypot h (ApplyForce i f dt) = apply_force h i f dt"
| "run_op hypot h (Integrate i dt) = integrate h i dt"
| "run_op hypot h (AttachTo i t p) = attach_to h i t p"
| "run_op hypot h (Detach i) = detach h i"
| "run_op hypot h (SpringApply c dt) = apply_spring hypot h c dt"
| "run_op hypot h (Step objects constraints dt) = step hypot h objects constraints dt"
| "run_op hypot h (SetPosition i p) = Done (h(i := (h i)\<lparr>position := p\<rparr>))"
| "run_op hypot h (SetVelocity i v) = Done (h(i := (h i)\<lparr>velocity := v\<rparr>))"

fun run_ops ::
  "('a \<Rightarrow> 'a \<Rightarrow> 'a) \<Rightarrow> 'a::{plus,minus,uminus,times,inverse,zero,one,ord} heap \<Rightarrow> 'a operation list
     \<Rightarrow> 'a heap" where
  "run_ops hypot h [] = h"
| "run_ops hypot h (ope # opes) = run_ops hypot (heap_of (run_op hypot h ope)) opes"


text \<open>A driver loop: \<open>n\<close> calls of \<open>step\<close>, stopping at the first that raises.\<close>

fun steps ::
  "('a \<Rightarrow> 'a \<Rightarrow> 'a) \<Rightarrow> 'a::{plus,minus,uminus,times,inverse,zero,one,ord} heap \<Rightarrow> obj_id list
     \<Rightarrow> 'a RodSpring list \<Rightarrow> 'a \<Rightarrow> nat \<Rightarrow> 'a heap outcome" where
  "steps hypot h objects constraints dt 0 = Done h"
| "steps hypot h objects constraints dt (Suc n) =
     and_then (step hypot h objects constraints dt) (\<lambda>h'. steps hypot h' objects constraints dt n)"

text \<open>
  Two springs on the heap of the examples: one between the ball and the box, which are at
  distance 1, and one between the anchor and the box, which are at the same position.
\<close>

definition ex_spring :: "real RodSpring" where
  "ex_spring = \<lparr>obj_a = 11, obj_b = 12, rest_length = Some 1, stiffness = 100, damping = 0\<rparr>"



text \<open>The calls that set or clear the attachment of object \<open>i\<close>.\<close>

fun rebinds :: "obj_id \<Rightarrow> 'a operation \<Rightarrow> bool" where
  "rebinds i (AttachTo j t p) = (i = j)"
| "rebinds i (Detach j) = (i = j)"
| "rebinds i ope = False"


subsection \<open>Python's float\<close>

text \<open>
  Python's \<open>float\<close> is the IEEE 754 binary64 format, and its arithmetic rounds to the
  nearest representable number, ties to the even significand. A finite float is given here
  by the rational number it denotes. The two zeros are one value: the source never reads the
  sign of a zero (a division by either zero raises), so they cannot be told apart.
\<close>

datatype double = Finite rat | PInf | NInf | NaN

text \<open>\<open>ilog2 q\<close> is the integer part of the binary logarithm of a positive rational.\<close>

definition ilog2 :: "rat \<Rightarrow> int" where
  "ilog2 q = (let k = bitlen (fst (quotient_of q)) - bitlen (snd (quotient_of q))
              in if 2 powi k \<le> q then k else k - 1)"

text \<open>The nearest integer, a tie going to the even one.\<close>

definition round_half_even :: "rat \<Rightarrow> int" where
  "round_half_even x =
     (let f = \<lfloor>x\<rfloor>; r = x - of_int f
      in if r < 1/2 then f else if 1/2 < r then f + 1 else if even f then f else f + 1)"

text \<open>
  \<open>fl q\<close> is the float nearest to \<open>q\<close>: 53 significant bits, the exponent of the last bit
  not below \<open>-1074\<close> (subnormal numbers), and an infinity from \<open>2 ^ 1024\<close> on.
\<close>

definition fl :: "rat \<Rightarrow> double" where
  "fl q =
     (if q = 0 then Finite 0
      else let e = max (ilog2 \<bar>q\<bar> - 52) (- 1074);
               r = of_int (round_half_even (q / 2 powi e)) * 2 powi e
           in if 2 powi 1024 \<le> \<bar>r\<bar> then (if 0 < q then PInf else NInf) else Finite r)"

text \<open>
  The operations of the source on floats. Each rounds the exact result; the infinities and
  \<open>NaN\<close> follow IEEE 754. Python raises on a zero divisor instead of dividing (see
  \<open>py_div\<close>), so the value given to such a quotient here is never read.
\<close>

instantiation double :: "{zero,one,plus,minus,uminus,times,inverse,ord}"
begin

definition zero_double :: double where
  "zero_double = Finite 0"

definition one_double :: double where
  "one_double = Finite 1"

fun plus_double :: "double \<Rightarrow> double \<Rightarrow> double" where
  "plus_double (Finite x) (Finite y) = fl (x + y)"
| "plus_double NaN y = NaN"
| "plus_double x NaN = NaN"
| "plus_double PInf NInf = NaN"
| "plus_double NInf PInf = NaN"
| "plus_double PInf y = PInf"
| "plus_double NInf y = NInf"
| "plus_double (Finite x) y = y"

fun uminus_double :: "double \<Rightarrow> double" where
  "uminus_double (Finite x) = Finite (- x)"
| "uminus_double PInf = NInf"
| "uminus_double NInf = PInf"
| "uminus_double NaN = NaN"

definition minus_double :: "double \<Rightarrow> double \<Rightarrow> double" where
  "minus_double x y = x + (- y)"

fun sign_inf :: "bool \<Rightarrow> double" where
  "sign_inf positive = (if positive then PInf else NInf)"

fun times_double :: "double \<Rightarrow> double \<Rightarrow> double" where
  "times_double (Finite x) (Finite y) = fl (x * y)"
| "times_double NaN y = NaN"
| "times_double x NaN = NaN"
| "times_double (Finite x) PInf = (if x = 0 then NaN else sign_inf (0 < x))"
| "times_double (Finite x) NInf = (if x = 0 then NaN else sign_inf (x < 0))"
| "times_double PInf (Finite y) = (if y = 0 then NaN else sign_inf (0 < y))"
| "times_double NInf (Finite y) = (if y = 0 then NaN else sign_inf (y < 0))"
| "times_double PInf PInf = PInf"
| "times_double NInf NInf = PInf"
| "times_double PInf NInf = NInf"
| "times_double NInf PInf = NInf"

fun divide_double :: "double \<Rightarrow> double \<Rightarrow> double" where
  "divide_double (Finite x) (Finite y) = (if y = 0 then NaN else fl (x / y))"
| "divide_double NaN y = NaN"
| "divide_double x NaN = NaN"
| "divide_double (Finite x) y = Finite 0"
| "divide_double PInf (Finite y) = (if y = 0 then NaN else sign_inf (0 < y))"
| "divide_double NInf (Finite y) = (if y = 0 then NaN else sign_inf (y < 0))"
| "divide_double x y = NaN"

definition inverse_double :: "double \<Rightarrow> double" where
  "inverse_double x = divide (Finite 1) x"

fun less_eq_double :: "double \<Rightarrow> double \<Rightarrow> bool" where
  "less_eq_double (Finite x) (Finite y) = (x \<le> y)"
| "less_eq_double NaN y = False"
| "less_eq_double x NaN = False"
| "less_eq_double NInf y = True"
| "less_eq_double x PInf = True"
| "less_eq_double x y = False"

fun less_double :: "double \<Rightarrow> double \<Rightarrow> bool" where
  "less_double (Finite x) (Finite y) = (x < y)"
| "less_double NaN y = False"
| "less_double x NaN = False"
| "less_double PInf y = False"
| "less_double x NInf = False"
| "less_double x y = True"

instance ..

end

declare plus_double.simps [simp del] times_double.simps [simp del]
  divide_double.simps [simp del] uminus_double.simps [simp del]
  less_eq_double.simps [simp del] less_double.simps [simp del]


text \<open>
  A heap over floats: object 10 is a free ball at the origin with velocity \<open>(1.0, 0.0)\<close>,
  object 11 a free ball at \<open>(0.1, 0.0)\<close>. Object 11 is attached to the centre of object 10,
  and then both are integrated over one second, the target first.
\<close>

definition dbl_heap :: "double heap" where
  "dbl_heap =
     (\<lambda>i. default_object Plain)
       (10 := (default_object (Ball (fl (1/10))))\<lparr>velocity := (Finite 1, Finite 0)\<rparr>,
        11 := (default_object (Ball (fl (1/10))))\<lparr>position := (fl (1/10), Finite 0)\<rparr>)"

definition dbl_attached :: "double heap" where
  "dbl_attached = heap_of (attach_to dbl_heap 11 (Some 10) ''center'')"

definition dbl_moved :: "double heap" where
  "dbl_moved = heap_of (integrate_all dbl_attached [10, 11] (Finite 1))"

text \<open>
  \<open>math.hypot\<close> on floats: infinite if an argument is, else \<open>nan\<close> if an argument is, else
  the square root of the exact sum of the squares, rounded to the nearest float.
  \<open>isqrt\<close> is the integer square root, by Newton's iteration from a power of two above
  the root.
\<close>

function newton_sqrt :: "int \<Rightarrow> int \<Rightarrow> int" where
  "newton_sqrt n x =
     (if x \<le> 0 then 0
      else let y = (x + n div x) div 2 in if y < x then newton_sqrt n y else x)"
  by pat_completeness auto
termination
  by (relation "measure (\<lambda>(n, x). nat x)") auto

definition isqrt :: "int \<Rightarrow> int" where
  "isqrt n = newton_sqrt n (2 ^ nat ((bitlen n + 1) div 2))"

definition fl_root :: "rat \<Rightarrow> double" where
  "fl_root q =
     (if q \<le> 0 then Finite 0
      else let e = max (ilog2 q div 2 - 52) (- 1074);
               s = q / 2 powi (2 * e);
               f = isqrt \<lfloor>s\<rfloor>;
               half = (of_int f + 1/2) * (of_int f + 1/2);
               m = (if s < half then f else if half < s then f + 1
                    else if even f then f else f + 1);
               r = of_int m * 2 powi e
           in if 2 powi 1024 \<le> r then PInf else Finite r)"

fun hypot_double :: "double \<Rightarrow> double \<Rightarrow> double" where
  "hypot_double PInf y = PInf"
| "hypot_double NInf y = PInf"
| "hypot_double x PInf = PInf"
| "hypot_double x NInf = PInf"
| "hypot_double NaN y = NaN"
| "hypot_double x NaN = NaN"
| "hypot_double (Finite x) (Finite y) = fl_root (x * x + y * y)"

text \<open>
  The finite floats, and the values of the float format among the values of \<open>double\<close>: a
  \<open>Finite q\<close> is one when rounding leaves \<open>q\<close> as it is. The unit direction of a spring
  of length \<open>r\<close> is finite when both quotients of \<open>RodSpring.apply\<close> are.
\<close>

fun is_finite :: "double \<Rightarrow> bool" where
  "is_finite (Finite q) = True"
| "is_finite PInf = False"
| "is_finite NInf = False"
| "is_finite NaN = False"

definition is_binary64 :: "double \<Rightarrow> bool" where
  "is_binary64 d =
     (case d of Finite q \<Rightarrow> fl q = Finite q | PInf \<Rightarrow> True | NInf \<Rightarrow> True | NaN \<Rightarrow> True)"

definition float_position :: "double PhysicsObject \<Rightarrow> bool" where
  "float_position ob = (is_binary64 (fst (position ob)) \<and> is_binary64 (snd (position ob)))"

definition finite_direction :: "double Vector2 \<Rightarrow> double \<Rightarrow> bool" where
  "finite_direction delta r =
     (r = 0 \<or> (is_finite (fst delta / r) \<and> is_finite (snd delta / r)))"

text \<open>
  Two free balls at rest at \<open>(0.0, 0.0)\<close> and \<open>(1.0, 0.0)\<close>, and two springs of rest length
  \<open>1.0\<close> without damping between them: one of stiffness \<open>float('inf')\<close>, one of stiffness
  \<open>100.0\<close>. \<open>dbl_blown\<close> is the heap after one step of one second with the first spring.
\<close>

definition dbl_rest :: "double heap" where
  "dbl_rest =
     (\<lambda>i. default_object Plain)
       (10 := default_object (Ball (fl (1/10))),
        11 := (default_object (Ball (fl (1/10))))\<lparr>position := (Finite 1, Finite 0)\<rparr>)"

definition dbl_stiff :: "double RodSpring" where
  "dbl_stiff = \<lparr>obj_a = 10, obj_b = 11, rest_length = Some (Finite 1), stiffness = PInf,
                damping = Finite 0\<rparr>"

definition dbl_soft :: "double RodSpring" where
  "dbl_soft = \<lparr>obj_a = 10, obj_b = 11, rest_length = Some (Finite 1), stiffness = Finite 100,
               damping = Finite 0\<rparr>"

definition dbl_blown :: "double heap" where
  "dbl_blown = heap_of (step hypot_double dbl_rest [10, 11] [dbl_stiff] (Finite 1))"


section \<open>Properties\<close>

subsection \<open>Forces\<close>

text \<open>
  Claim C5. \<open>apply_force\<close> leaves the whole heap as it is when the object is attached, or
  fixed, or has a mass \<open>\<le> 0\<close>, and raises nothing. Otherwise it returns too, and the only
  field it writes is the velocity of the object, which becomes
  \<open>velocity + (force / mass) * dt\<close>, component by component. This holds in every
  arithmetic in which \<open>0 \<le> 0\<close>, so over exact numbers and over floats alike: a mass that
  is not \<open>\<le> 0\<close> is then not zero, and the division cannot raise.
\<close>

theorem apply_force_spec:
  fixes h :: "'a::{plus,times,inverse,zero,ord} heap"
  assumes "(0::'a) \<le> 0"
  shows "apply_force h self force dt =
     (if attached_to (h self) \<noteq> None \<or> fixed (h self) \<or> mass (h self) \<le> 0 then Done h
      else Done (h(self := (h self)\<lparr>velocity :=
             (fst (velocity (h self)) + fst force / mass (h self) * dt,
              snd (velocity (h self)) + snd force / mass (h self) * dt)\<rparr>)))"
  using assms by (auto simp: apply_force_def py_div_def)

subsection \<open>Attach points\<close>

lemma get_attach_point_Inr_iff:
  "(\<exists>p. get_attach_point ob part = Inr p) \<longleftrightarrow> part \<in> set (attach_points (shape ob))"
  by (cases "shape ob") (auto simp: get_attach_point_def Let_def split: option.splits)

lemma get_attach_point_unknown:
  "part \<notin> set (attach_points (shape ob)) \<Longrightarrow>
     get_attach_point ob part = Inl (no_attach_point (class_name (shape ob)) part)"
  by (cases "shape ob") (auto simp: get_attach_point_def Let_def split: option.splits)

lemma attach_to_Done:
  "get_attach_point (h t) part = Inr ap \<Longrightarrow>
   attach_to h self (Some t) part =
     Done (h(self := (h self)\<lparr>previous_fixed_state := Some (fixed (h self)),
               attached_to := Some t, attached_part := Some part,
               attached_offset := Some (v_sub (position (h self)) ap), fixed := True\<rparr>))"
  by (simp add: attach_to_def Let_def)

lemma attach_to_Raised:
  "get_attach_point (h t) part = Inl e \<Longrightarrow> attach_to h self (Some t) part = Raised e h"
  by (simp add: attach_to_def)

lemma ex_heap_anchor_point: "get_attach_point (ex_heap 10) ''anchor'' = Inr (0, 0)"
  by (simp add: get_attach_point_def ex_heap_def default_object_def v_zero_def)

lemma ex_attached_eq:
  "ex_attached = ex_heap(11 := (ex_heap 11)\<lparr>previous_fixed_state := Some False,
      attached_to := Some 10, attached_part := Some ''anchor'',
      attached_offset := Some (1, 0), fixed := True\<rparr>)"
  unfolding ex_attached_def
    attach_to_Done [of ex_heap 10 "''anchor''" "(0, 0)" 11, OF ex_heap_anchor_point]
  by (simp add: ex_heap_def default_object_def v_sub_def)

text \<open>
  Claim C7. When the name is not one the class of the object resolves, \<open>get_attach_point\<close>
  raises a \<open>ValueError\<close> whose message names the class and the requested point, and
  \<open>attach_to\<close> with that target and name raises the same error, leaving the heap as it was.
\<close>

theorem unknown_attach_point_raises:
  "part \<notin> set (attach_points (shape (h t))) \<Longrightarrow>
     get_attach_point (h t) part =
       Inl (ValueError (class_name (shape (h t)) @ '' has no attach point named ''
              @ [CHR 0x27] @ part @ [CHR 0x27]))
     \<and> attach_to h self (Some t) part =
       Raised (ValueError (class_name (shape (h t)) @ '' has no attach point named ''
                 @ [CHR 0x27] @ part @ [CHR 0x27])) h"
  using get_attach_point_unknown [of part "h t"]
  by (simp add: attach_to_Raised no_attach_point_def quote_def)

theorem unknown_attach_point_raises_witness:
  "''anchor'' \<notin> set (attach_points (shape (ex_heap 11)))
   \<and> get_attach_point (ex_heap 11) ''anchor'' =
       Inl (ValueError (''Ball has no attach point named '' @ [CHR 0x27] @ ''anchor'' @ [CHR 0x27]))
   \<and> attach_to ex_heap 12 (Some 11) ''anchor'' =
       Raised (ValueError (''Ball has no attach point named '' @ [CHR 0x27] @ ''anchor'' @ [CHR 0x27]))
         ex_heap"
proof -
  have sh: "shape (ex_heap 11) = Ball (1/10)"
    by (simp add: ex_heap_def default_object_def)
  have unknown: "''anchor'' \<notin> set (attach_points (shape (ex_heap 11)))"
    by (simp add: sh)
  show ?thesis
    using unknown unknown_attach_point_raises [of "''anchor''" ex_heap 11 12]
    by (simp add: sh)
qed

subsection \<open>Attaching and detaching\<close>

text \<open>
  Claim C10. When \<open>attach_to\<close> raises, the heap it leaves is the heap it was given: no field
  of the attaching object (nor of any other object) has been written. It raises exactly
  when the target is \<open>None\<close> or when \<open>get_attach_point\<close> of the target raises, with that
  error.
\<close>

theorem attach_failure_atomic:
  "attach_to h self target part = Raised e h' \<Longrightarrow>
     h' = h \<and> (target = None \<and> e = ValueError ''target must be a PhysicsObject''
              \<or> (\<exists>t. target = Some t \<and> get_attach_point (h t) part = Inl e))"
  by (auto simp: attach_to_def Let_def split: option.splits sum.splits)

theorem attach_failure_atomic_witness:
  "attach_to ex_attached 11 None ''center'' =
     Raised (ValueError ''target must be a PhysicsObject'') ex_attached
   \<and> ex_attached 11 = (ex_heap 11)\<lparr>previous_fixed_state := Some False,
        attached_to := Some 10, attached_part := Some ''anchor'',
        attached_offset := Some (1, 0), fixed := True\<rparr>"
proof -
  have r: "attach_to ex_attached 11 None ''center'' =
      Raised (ValueError ''target must be a PhysicsObject'') ex_attached"
    by (simp add: attach_to_def)
  from attach_failure_atomic [OF r] show ?thesis
    using r by (simp add: ex_attached_eq)
qed

text \<open>
  Claim C3. \<open>detach\<close> always returns. On an object that is not attached it leaves the heap
  as it is. On an attached object it writes the target's velocity of that moment into the
  object, clears the three attachment fields, and sets \<open>fixed\<close> to the saved value when
  there is one (and to \<open>False\<close> when there is none), clearing the saved value. The velocity
  is a copy: a later assignment to the velocity of the target (another object) does not
  reach the detached object.
\<close>

theorem detach_spec:
  "detach h self =
     Done (case attached_to (h self) of
             None \<Rightarrow> h
           | Some t \<Rightarrow> h(self := (h self)\<lparr>velocity := velocity (h t),
                          attached_to := None, attached_part := None, attached_offset := None,
                          fixed := (case previous_fixed_state (h self) of
                                      Some f \<Rightarrow> f | None \<Rightarrow> False),
                          previous_fixed_state := None\<rparr>))
   \<and> (\<forall>t w. attached_to (h self) = Some t \<and> t \<noteq> self \<longrightarrow>
          velocity (((heap_of (detach h self))
                       (t := (heap_of (detach h self) t)\<lparr>velocity := w\<rparr>)) self)
            = velocity (h t))"
  by (auto simp: detach_def Let_def split: option.splits)

theorem detach_spec_witness:
  "detach ex_attached 11 =
     Done (ex_heap(11 := (ex_heap 11)\<lparr>velocity := (1/2, 0)\<rparr>))
   \<and> detach ex_heap 11 = Done ex_heap
   \<and> velocity (((heap_of (detach ex_attached 11))
                   (10 := (heap_of (detach ex_attached 11) 10)\<lparr>velocity := (7, 7)\<rparr>)) 11)
        = (1/2, 0)"
proof -
  have a: "attached_to (ex_attached 11) = Some 10" "attached_to (ex_heap 11) = None"
    "previous_fixed_state (ex_attached 11) = Some False"
    "velocity (ex_attached 10) = (1/2, 0)"
    by (simp_all add: ex_attached_eq) (simp_all add: ex_heap_def default_object_def)
  have e: "ex_attached(11 := (ex_attached 11)\<lparr>velocity := (1/2, 0),
               attached_to := None, attached_part := None, attached_offset := None,
               fixed := False, previous_fixed_state := None\<rparr>)
           = ex_heap(11 := (ex_heap 11)\<lparr>velocity := (1/2, 0)\<rparr>)"
    by (simp add: ex_attached_eq) (simp add: ex_heap_def default_object_def)
  show ?thesis
    using detach_spec [of ex_attached 11] detach_spec [of ex_heap 11]
    by (simp add: a e)
qed

subsection \<open>Frames: what each call can change\<close>

lemma same_but_motion_refl [simp]: "same_but_motion ob ob"
  by (simp add: same_but_motion_def)

lemma same_but_motion_trans:
  "same_but_motion x y \<Longrightarrow> same_but_motion y z \<Longrightarrow> same_but_motion x z"
  unfolding same_but_motion_def
  by (metis (no_types, lifting) PhysicsObject.surjective PhysicsObject.update_convs(1,2))

lemma same_but_motion_fields:
  "same_but_motion ob ob' \<Longrightarrow>
     attached_to ob' = attached_to ob \<and> attached_part ob' = attached_part ob
     \<and> attached_offset ob' = attached_offset ob \<and> fixed ob' = fixed ob
     \<and> previous_fixed_state ob' = previous_fixed_state ob \<and> shape ob' = shape ob
     \<and> mass ob' = mass ob \<and> color ob' = color ob"
  unfolding same_but_motion_def
  by (metis PhysicsObject.select_convs(3-10) PhysicsObject.surjective PhysicsObject.update_convs(1,2))

lemma heap_of_and_then:
  "heap_of (and_then r f) = (case r of Done h \<Rightarrow> heap_of (f h) | Raised e h \<Rightarrow> h)"
  by (cases r) (simp_all add: and_then_def)

lemma apply_force_motion: "same_but_motion (h i) (heap_of (apply_force h j f dt) i)"
  by (auto simp: apply_force_def same_but_motion_def split: sum.splits)

lemma integrate_motion: "same_but_motion (h i) (heap_of (integrate h j dt) i)"
  by (auto simp: integrate_def same_but_motion_def Let_def split: sum.splits option.splits)

lemma apply_spring_motion: "same_but_motion (h i) (heap_of (apply_spring hypot h c dt) i)"
proof -
  have two: "same_but_motion (h i) (heap_of (and_then (apply_force h j f dt) (\<lambda>h'. apply_force h' k g dt)) i)"
    for j k f g
  proof (cases "apply_force h j f dt")
    case (Done h1)
    then have "same_but_motion (h i) (h1 i)"
      using apply_force_motion [of h i j f dt] by simp
    moreover have "same_but_motion (h1 i) (heap_of (apply_force h1 k g dt) i)"
      by (rule apply_force_motion)
    ultimately show ?thesis
      using Done by (simp add: and_then_def same_but_motion_trans)
  next
    case (Raised e h1)
    then show ?thesis
      using apply_force_motion [of h i j f dt] by (simp add: and_then_def)
  qed
  show ?thesis
    unfolding apply_spring_def Let_def
    by (auto split: sum.splits option.splits intro: two)
qed

lemma apply_all_motion: "same_but_motion (h i) (heap_of (apply_all hypot h cs dt) i)"
proof (induction cs arbitrary: h)
  case Nil
  show ?case by simp
next
  case (Cons c cs)
  show ?case
  proof (cases "apply_spring hypot h c dt")
    case (Done h1)
    then have "same_but_motion (h i) (h1 i)"
      using apply_spring_motion [of h i hypot c dt] by simp
    then show ?thesis
      using Done Cons.IH [of h1] by (simp add: and_then_def same_but_motion_trans)
  next
    case (Raised e h1)
    then show ?thesis
      using apply_spring_motion [of h i hypot c dt] by (simp add: and_then_def)
  qed
qed

lemma integrate_all_motion: "same_but_motion (h i) (heap_of (integrate_all h obs dt) i)"
proof (induction obs arbitrary: h)
  case Nil
  show ?case by simp
next
  case (Cons ob obs)
  show ?case
  proof (cases "integrate h ob dt")
    case (Done h1)
    then have "same_but_motion (h i) (h1 i)"
      using integrate_motion [of h i ob dt] by simp
    then show ?thesis
      using Done Cons.IH [of h1] by (simp add: and_then_def same_but_motion_trans)
  next
    case (Raised e h1)
    then show ?thesis
      using integrate_motion [of h i ob dt] by (simp add: and_then_def)
  qed
qed

lemma step_motion: "same_but_motion (h i) (heap_of (step hypot h obs cs dt) i)"
proof (cases "apply_all hypot h cs dt")
  case (Done h1)
  then have "same_but_motion (h i) (h1 i)"
    using apply_all_motion [of h i hypot cs dt] by simp
  then show ?thesis
    using Done integrate_all_motion [of h1 i obs dt]
    by (simp add: step_def and_then_def same_but_motion_trans)
next
  case (Raised e h1)
  then show ?thesis
    using apply_all_motion [of h i hypot cs dt] by (simp add: step_def and_then_def)
qed

lemma motion_keeps_invariant:
  "same_but_motion ob ob' \<Longrightarrow> fixed_while_attached ob \<Longrightarrow> fixed_while_attached ob'"
  using same_but_motion_fields [of ob ob'] by (simp add: fixed_while_attached_def)

lemma attach_to_invariant:
  "fixed_while_attached (h i) \<Longrightarrow> fixed_while_attached (heap_of (attach_to h j t p) i)"
  by (auto simp: attach_to_def Let_def fixed_while_attached_def split: option.splits sum.splits)

lemma detach_invariant:
  "fixed_while_attached (h i) \<Longrightarrow> fixed_while_attached (heap_of (detach h j) i)"
  by (auto simp: detach_def Let_def fixed_while_attached_def split: option.splits)

lemma run_op_invariant:
  assumes inv: "fixed_while_attached (h i)"
  shows "fixed_while_attached (heap_of (run_op hypot h ope) i)"
proof (cases ope)
  case (ApplyForce j f dt)
  then show ?thesis
    using motion_keeps_invariant [OF apply_force_motion [of h i j f dt] inv] by simp
next
  case (Integrate j dt)
  then show ?thesis
    using motion_keeps_invariant [OF integrate_motion [of h i j dt] inv] by simp
next
  case (AttachTo j t p)
  then show ?thesis by (simp add: attach_to_invariant inv)
next
  case (Detach j)
  then show ?thesis by (simp add: detach_invariant inv)
next
  case (SpringApply c dt)
  then show ?thesis
    using motion_keeps_invariant [OF apply_spring_motion [of h i hypot c dt] inv] by simp
next
  case (Step obs cs dt)
  then show ?thesis
    using motion_keeps_invariant [OF step_motion [of h i hypot obs cs dt] inv] by simp
next
  case (SetPosition j p)
  then show ?thesis using inv by (auto simp: fixed_while_attached_def)
next
  case (SetVelocity j v)
  then show ?thesis using inv by (auto simp: fixed_while_attached_def)
qed

lemma run_ops_invariant:
  "fixed_while_attached (h i) \<Longrightarrow> fixed_while_attached (run_ops hypot h opes i)"
  by (induction opes arbitrary: h) (simp_all add: run_op_invariant)

text \<open>
  Claim C6. A successful \<open>attach_to\<close> leaves the object attached and fixed. For every
  object, the invariant that \<open>fixed\<close> is true while the attachment is present is kept by
  each call (\<open>apply_force\<close>, \<open>integrate\<close>, \<open>attach_to\<close>, \<open>detach\<close>, the spring's
  \<open>apply\<close>, \<open>step\<close>, returning or raising, on this or any other object), and so by
  every sequence of calls; \<open>detach\<close> keeps it by clearing the attachment.
\<close>

theorem fixed_while_attached_invariant:
  "(attach_to h i t p = Done h' \<longrightarrow> attached_to (h' i) \<noteq> None \<and> fixed (h' i))
   \<and> (fixed_while_attached (h i) \<longrightarrow>
        fixed_while_attached (heap_of (run_op hypot h ope) i)
        \<and> fixed_while_attached (run_ops hypot h opes i))"
  by (auto simp: run_op_invariant run_ops_invariant attach_to_def Let_def
           split: option.splits sum.splits)

lemma detach_Done: "detach h self = Done (heap_of (detach h self))"
  by (auto simp: detach_def Let_def split: option.splits)




lemma integrate_attached:
  assumes "attached_to (h self) = Some t" "attached_part (h self) = Some part" "part \<noteq> []"
    "attached_offset (h self) = Some off" "get_attach_point (h t) part = Inr ap"
  shows "integrate h self dt =
     Done (h(self := (h self)\<lparr>position := v_add ap off, velocity := velocity (h t)\<rparr>))"
  using assms by (auto simp: integrate_def Let_def)







lemma ex_attach_Done: "attach_to ex_heap 11 (Some 10) ''anchor'' = Done ex_attached"
  unfolding ex_attached_eq
    attach_to_Done [of ex_heap 10 "''anchor''" "(0, 0)" 11, OF ex_heap_anchor_point]
  by (simp add: ex_heap_def default_object_def v_sub_def)

lemma ex_attached_fields:
  "attached_to (ex_attached 11) = Some 10" "attached_part (ex_attached 11) = Some ''anchor''"
  "attached_offset (ex_attached 11) = Some (1, 0)" "fixed (ex_attached 11)"
  "previous_fixed_state (ex_attached 11) = Some False"
  "ex_attached 10 = ex_heap 10" "ex_attached 12 = ex_heap 12"
  by (simp_all add: ex_attached_eq)

theorem fixed_while_attached_invariant_witness:
  "attach_to ex_heap 11 (Some 10) ''anchor'' = Done ex_attached
   \<and> attached_to (ex_attached 11) \<noteq> None \<and> fixed (ex_attached 11)
   \<and> fixed_while_attached (ex_attached 11)
   \<and> fixed_while_attached
        (heap_of (run_op hypot_real ex_attached (Step [10, 11] [] (1/1000))) 11)
   \<and> fixed_while_attached
        (run_ops hypot_real ex_attached [ApplyForce 11 (1, 1) 1, Integrate 11 1, Detach 11] 11)"
proof -
  have inv: "fixed_while_attached (ex_attached 11)"
    by (simp add: fixed_while_attached_def ex_attached_fields)
  show ?thesis
    using inv ex_attach_Done
      fixed_while_attached_invariant [of ex_heap 11 "Some 10" "''anchor''" ex_attached]
      fixed_while_attached_invariant [of ex_attached 11 None "[]" ex_attached hypot_real
        "Step [10, 11] [] (1/1000)" "[ApplyForce 11 (1, 1) 1, Integrate 11 1, Detach 11]"]
    by simp
qed




subsection \<open>Springs at rest and degenerate springs\<close>







lemma apply_force_null:
  fixes h :: "real heap"
  shows "apply_force h i (0, 0) dt = Done h"
  by (auto simp: apply_force_def py_div_def)

lemma apply_spring_rest:
  fixes h :: "real heap"
  assumes "velocity (h (obj_a c)) = (0, 0)" "velocity (h (obj_b c)) = (0, 0)"
    "rest_length c = Some r0" "damping c = 0"
    "v_len hypot_real (v_sub (position (h (obj_b c))) (position (h (obj_a c)))) = r0"
  shows "apply_spring hypot_real h c dt = Done h"
  using assms
  by (auto simp: apply_spring_def Let_def py_div_def v_sub_def v_scale_def and_then_def apply_force_null)

lemma apply_all_rest:
  fixes h :: "real heap"
  assumes "velocity (h (obj_a c)) = (0, 0)" "velocity (h (obj_b c)) = (0, 0)"
    "rest_length c = Some r0" "damping c = 0"
    "v_len hypot_real (v_sub (position (h (obj_b c))) (position (h (obj_a c)))) = r0"
    "set cs \<subseteq> {c}"
  shows "apply_all hypot_real h cs dt = Done h"
  using assms(6)
proof (induction cs)
  case Nil
  show ?case by simp
next
  case (Cons x cs)
  then have "x = c" "set cs \<subseteq> {c}" by auto
  then show ?case
    using Cons.IH apply_spring_rest [of h c r0 dt] assms(1-5) by (simp add: and_then_def)
qed

lemma integrate_rest:
  fixes h :: "real heap"
  shows "attached_to (h i) = None \<Longrightarrow> velocity (h i) = (0, 0) \<Longrightarrow> integrate h i dt = Done h"
  by (auto simp: integrate_def)

lemma integrate_all_rest:
  fixes h :: "real heap"
  assumes "\<forall>i\<in>set obs. attached_to (h i) = None \<and> velocity (h i) = (0, 0)"
  shows "integrate_all h obs dt = Done h"
  using assms by (induction obs) (simp_all add: integrate_rest and_then_def)

lemma step_rest:
  fixes h :: "real heap"
  assumes "attached_to (h (obj_a c)) = None" "attached_to (h (obj_b c)) = None"
    "velocity (h (obj_a c)) = (0, 0)" "velocity (h (obj_b c)) = (0, 0)"
    "rest_length c = Some r0" "damping c = 0"
    "v_len hypot_real (v_sub (position (h (obj_b c))) (position (h (obj_a c)))) = r0"
    "set objects \<subseteq> {obj_a c, obj_b c}" "set cs \<subseteq> {c}"
  shows "step hypot_real h objects cs dt = Done h"
proof -
  have "apply_all hypot_real h cs dt = Done h"
    using apply_all_rest [of h c r0 cs dt] assms by simp
  moreover have "integrate_all h objects dt = Done h"
    using integrate_all_rest [of objects h dt] assms by auto
  ultimately show ?thesis by (simp add: step_def and_then_def)
qed

lemma steps_rest:
  fixes h :: "real heap"
  assumes "attached_to (h (obj_a c)) = None" "attached_to (h (obj_b c)) = None"
    "velocity (h (obj_a c)) = (0, 0)" "velocity (h (obj_b c)) = (0, 0)"
    "rest_length c = Some r0" "damping c = 0"
    "v_len hypot_real (v_sub (position (h (obj_b c))) (position (h (obj_a c)))) = r0"
    "set objects \<subseteq> {obj_a c, obj_b c}" "set cs \<subseteq> {c}"
  shows "steps hypot_real h objects cs dt n = Done h"
  using step_rest [OF assms, of dt] by (induction n) (simp_all add: and_then_def)


subsection \<open>Rigid attachment\<close>

lemma attach_points_nonempty: "part \<in> set (attach_points sh) \<Longrightarrow> part \<noteq> []"
  by (cases sh) auto

lemma run_op_shape: "shape (heap_of (run_op hypot h ope) i) = shape (h i)"
proof (cases ope)
  case (ApplyForce j f dt)
  then show ?thesis
    using same_but_motion_fields [OF apply_force_motion [of h i j f dt]] by simp
next
  case (Integrate j dt)
  then show ?thesis
    using same_but_motion_fields [OF integrate_motion [of h i j dt]] by simp
next
  case (AttachTo j t p)
  then show ?thesis
    by (auto simp: attach_to_def Let_def split: option.splits sum.splits)
next
  case (Detach j)
  then show ?thesis
    by (auto simp: detach_def Let_def split: option.splits)
next
  case (SpringApply c dt)
  then show ?thesis
    using same_but_motion_fields [OF apply_spring_motion [of h i hypot c dt]] by simp
next
  case (Step obs cs dt)
  then show ?thesis
    using same_but_motion_fields [OF step_motion [of h i hypot obs cs dt]] by simp
next
  case (SetPosition j p)
  then show ?thesis by simp
next
  case (SetVelocity j v)
  then show ?thesis by simp
qed

lemma run_ops_shape: "shape (run_ops hypot h opes i) = shape (h i)"
  by (induction opes arbitrary: h) (simp_all add: run_op_shape)

lemma run_op_attachment:
  assumes "\<not> rebinds i ope"
  shows "attached_to (heap_of (run_op hypot h ope) i) = attached_to (h i)
    \<and> attached_part (heap_of (run_op hypot h ope) i) = attached_part (h i)
    \<and> attached_offset (heap_of (run_op hypot h ope) i) = attached_offset (h i)"
proof (cases ope)
  case (ApplyForce j f dt)
  then show ?thesis
    using same_but_motion_fields [OF apply_force_motion [of h i j f dt]] by simp
next
  case (Integrate j dt)
  then show ?thesis
    using same_but_motion_fields [OF integrate_motion [of h i j dt]] by simp
next
  case (AttachTo j t p)
  then show ?thesis
    using assms by (auto simp: attach_to_def Let_def split: option.splits sum.splits)
next
  case (Detach j)
  then show ?thesis
    using assms by (auto simp: detach_def Let_def split: option.splits)
next
  case (SpringApply c dt)
  then show ?thesis
    using same_but_motion_fields [OF apply_spring_motion [of h i hypot c dt]] by simp
next
  case (Step obs cs dt)
  then show ?thesis
    using same_but_motion_fields [OF step_motion [of h i hypot obs cs dt]] by simp
next
  case (SetPosition j p)
  then show ?thesis by simp
next
  case (SetVelocity j v)
  then show ?thesis by simp
qed

lemma run_ops_attachment:
  "\<forall>ope\<in>set opes. \<not> rebinds i ope \<Longrightarrow>
     attached_to (run_ops hypot h opes i) = attached_to (h i)
     \<and> attached_part (run_ops hypot h opes i) = attached_part (h i)
     \<and> attached_offset (run_ops hypot h opes i) = attached_offset (h i)"
proof (induction opes arbitrary: h)
  case Nil
  show ?case by simp
next
  case (Cons ope opes)
  then have one: "\<not> rebinds i ope" and rest: "\<forall>x\<in>set opes. \<not> rebinds i x"
    by simp_all
  show ?case
    using Cons.IH [OF rest, of "heap_of (run_op hypot h ope)"]
      run_op_attachment [OF one, of hypot h]
    by simp
qed

lemma attach_to_Done_cases:
  assumes "attach_to h self (Some t) part = Done h1"
  obtains ap where "get_attach_point (h t) part = Inr ap"
    and "h1 = h(self := (h self)\<lparr>previous_fixed_state := Some (fixed (h self)),
               attached_to := Some t, attached_part := Some part,
               attached_offset := Some (v_sub (position (h self)) ap), fixed := True\<rparr>)"
proof (cases "get_attach_point (h t) part")
  case (Inl e)
  then show ?thesis using assms by (simp add: attach_to_Raised)
next
  case (Inr ap)
  then show ?thesis using assms that [of ap] by (simp add: attach_to_Done)
qed

lemma rigid_after_attach:
  assumes att: "attach_to hs self (Some t) part = Done ha"
    and ops: "\<forall>ope\<in>set opes. \<not> rebinds self ope"
  shows "\<exists>ap0 ap. get_attach_point (hs t) part = Inr ap0
      \<and> attached_offset (run_ops hypot ha opes self) = Some (v_sub (position (hs self)) ap0)
      \<and> get_attach_point (run_ops hypot ha opes t) part = Inr ap
      \<and> integrate (run_ops hypot ha opes) self dt =
          Done ((run_ops hypot ha opes)(self := (run_ops hypot ha opes self)
                  \<lparr>position := v_add ap (v_sub (position (hs self)) ap0),
                   velocity := velocity (run_ops hypot ha opes t)\<rparr>))"
proof -
  from att obtain ap0 where ap0: "get_attach_point (hs t) part = Inr ap0"
    and ha: "ha = hs(self := (hs self)\<lparr>previous_fixed_state := Some (fixed (hs self)),
               attached_to := Some t, attached_part := Some part,
               attached_offset := Some (v_sub (position (hs self)) ap0), fixed := True\<rparr>)"
    by (rule attach_to_Done_cases)
  let ?h2 = "run_ops hypot ha opes"
  have known: "part \<in> set (attach_points (shape (hs t)))"
    using ap0 get_attach_point_Inr_iff [of "hs t" part] by blast
  have "shape (ha t) = shape (hs t)"
    by (simp add: ha)
  then have "shape (?h2 t) = shape (hs t)"
    by (simp add: run_ops_shape)
  then obtain ap where ap: "get_attach_point (?h2 t) part = Inr ap"
    using known get_attach_point_Inr_iff [of "?h2 t" part] by auto
  have f1: "attached_to (ha self) = Some t" "attached_part (ha self) = Some part"
    "attached_offset (ha self) = Some (v_sub (position (hs self)) ap0)"
    by (simp_all add: ha)
  have f2: "attached_to (?h2 self) = Some t" "attached_part (?h2 self) = Some part"
    "attached_offset (?h2 self) = Some (v_sub (position (hs self)) ap0)"
    using run_ops_attachment [OF ops, of hypot ha] f1 by simp_all
  have "integrate ?h2 self dt =
      Done (?h2(self := (?h2 self)\<lparr>position := v_add ap (v_sub (position (hs self)) ap0),
                                      velocity := velocity (?h2 t)\<rparr>))"
    using integrate_attached [of ?h2 self t part "v_sub (position (hs self)) ap0" ap dt]
      f2 ap attach_points_nonempty [OF known]
    by simp
  then show ?thesis using ap0 ap f2(3) by blast
qed

lemma v_sub_v_add_exact: "v_sub (v_add ap off) ap = (off :: real Vector2)"
  by (simp add: v_sub_def v_add_def)

text \<open>
  Claim C1, as the code has it. After a successful \<open>attach_to\<close> and any sequence of calls
  that neither attaches nor detaches the object (steps, integrations of the object and of
  its target, forces, assignments to positions and velocities), the offset stored is still
  the one computed at attach time, position minus the attach point of the target then, and
  \<open>integrate\<close> on the object returns, setting its position to the sum \<open>v_add\<close> of the
  target's current attach point and that offset (and its velocity to the target's). This
  holds in every arithmetic. In exact arithmetic, and for a target other than the object
  itself, the position minus the target's attach point is then the offset exactly.
\<close>

theorem attachment_rigidity:
  fixes hs :: "'a::{plus,minus,uminus,times,inverse,zero,one,ord} heap" and gs :: "real heap"
  shows "(attach_to hs self (Some t) part = Done ha
          \<and> (\<forall>ope\<in>set opes. \<not> rebinds self ope) \<longrightarrow>
          (\<exists>ap0 ap. get_attach_point (hs t) part = Inr ap0
             \<and> attached_offset (run_ops hypot ha opes self) = Some (v_sub (position (hs self)) ap0)
             \<and> get_attach_point (run_ops hypot ha opes t) part = Inr ap
             \<and> integrate (run_ops hypot ha opes) self dt =
                 Done ((run_ops hypot ha opes)(self := (run_ops hypot ha opes self)
                         \<lparr>position := v_add ap (v_sub (position (hs self)) ap0),
                          velocity := velocity (run_ops hypot ha opes t)\<rparr>))))
     \<and> (attach_to gs self (Some t) part = Done ga
          \<and> (\<forall>ope\<in>set gopes. \<not> rebinds self ope) \<and> t \<noteq> self \<longrightarrow>
          (\<exists>ap0 ap g3. get_attach_point (gs t) part = Inr ap0
             \<and> integrate (run_ops hypot_real ga gopes) self gdt = Done g3
             \<and> attached_offset (g3 self) = Some (v_sub (position (gs self)) ap0)
             \<and> get_attach_point (g3 t) part = Inr ap
             \<and> v_sub (position (g3 self)) ap = v_sub (position (gs self)) ap0))"
proof (intro conjI impI)
  assume "attach_to hs self (Some t) part = Done ha \<and> (\<forall>ope\<in>set opes. \<not> rebinds self ope)"
  then show "\<exists>ap0 ap. get_attach_point (hs t) part = Inr ap0
             \<and> attached_offset (run_ops hypot ha opes self) = Some (v_sub (position (hs self)) ap0)
             \<and> get_attach_point (run_ops hypot ha opes t) part = Inr ap
             \<and> integrate (run_ops hypot ha opes) self dt =
                 Done ((run_ops hypot ha opes)(self := (run_ops hypot ha opes self)
                         \<lparr>position := v_add ap (v_sub (position (hs self)) ap0),
                          velocity := velocity (run_ops hypot ha opes t)\<rparr>))"
    using rigid_after_attach [of hs self t part ha opes hypot dt] by blast
next
  assume a: "attach_to gs self (Some t) part = Done ga
     \<and> (\<forall>ope\<in>set gopes. \<not> rebinds self ope) \<and> t \<noteq> self"
  let ?g2 = "run_ops hypot_real ga gopes"
  from a rigid_after_attach [of gs self t part ga gopes hypot_real gdt]
  obtain ap0 ap where ap0: "get_attach_point (gs t) part = Inr ap0"
    and off: "attached_offset (?g2 self) = Some (v_sub (position (gs self)) ap0)"
    and ap: "get_attach_point (?g2 t) part = Inr ap"
    and i: "integrate ?g2 self gdt =
        Done (?g2(self := (?g2 self)\<lparr>position := v_add ap (v_sub (position (gs self)) ap0),
                                        velocity := velocity (?g2 t)\<rparr>))"
    by blast
  let ?g3 = "?g2(self := (?g2 self)\<lparr>position := v_add ap (v_sub (position (gs self)) ap0),
                                      velocity := velocity (?g2 t)\<rparr>)"
  have "get_attach_point (?g3 t) part = Inr ap"
    using a ap by simp
  moreover have "v_sub (position (?g3 self)) ap = v_sub (position (gs self)) ap0"
    by (simp add: v_sub_v_add_exact)
  moreover have "attached_offset (?g3 self) = Some (v_sub (position (gs self)) ap0)"
    using off by simp
  ultimately show "\<exists>ap0 ap g3. get_attach_point (gs t) part = Inr ap0
             \<and> integrate (run_ops hypot_real ga gopes) self gdt = Done g3
             \<and> attached_offset (g3 self) = Some (v_sub (position (gs self)) ap0)
             \<and> get_attach_point (g3 t) part = Inr ap
             \<and> v_sub (position (g3 self)) ap = v_sub (position (gs self)) ap0"
    using ap0 i by blast
qed

lemma fl_tenth: "fl (1/10) = Finite (3602879701896397 / 36028797018963968)"
  by code_simp

lemma dbl_offset_x:
  "Finite (3602879701896397 / 36028797018963968) - Finite 0
     = Finite (3602879701896397 / 36028797018963968)"
  by code_simp

lemma dbl_zero_minus: "Finite 0 - Finite 0 = Finite 0"
  by code_simp

lemma dbl_target_x: "Finite 0 + Finite 1 * Finite 1 = Finite 1"
  by code_simp

lemma dbl_target_y: "Finite 0 + Finite 0 * Finite 1 = Finite 0"
  by code_simp

lemma dbl_follow_x:
  "Finite 1 + Finite (3602879701896397 / 36028797018963968)
     = Finite (2476979795053773 / 2251799813685248)"
  by code_simp

lemma dbl_zero_plus: "Finite 0 + Finite 0 = Finite 0"
  by code_simp

lemma dbl_back_x:
  "Finite (2476979795053773 / 2251799813685248) - Finite 1
     = Finite (225179981368525 / 2251799813685248)"
  by code_simp

lemma dbl_differ:
  "(225179981368525 / 2251799813685248 :: rat) \<noteq> 3602879701896397 / 36028797018963968"
  by simp

lemma dbl_numerals: "(0::double) = Finite 0" "(1::double) = Finite 1"
  by (simp_all add: zero_double_def one_double_def)

lemma dbl_heap_target_point: "get_attach_point (dbl_heap 10) ''center'' = Inr (Finite 0, Finite 0)"
  by (simp add: get_attach_point_def dbl_heap_def default_object_def v_zero_def dbl_numerals)

lemma dbl_attached_eq:
  "dbl_attached = dbl_heap(11 := (dbl_heap 11)\<lparr>previous_fixed_state := Some False,
      attached_to := Some 10, attached_part := Some ''center'',
      attached_offset := Some (Finite (3602879701896397 / 36028797018963968), Finite 0),
      fixed := True\<rparr>)"
  unfolding dbl_attached_def
    attach_to_Done [of dbl_heap 10 "''center''" "(Finite 0, Finite 0)" 11, OF dbl_heap_target_point]
  by (simp add: dbl_heap_def default_object_def v_sub_def fl_tenth dbl_offset_x dbl_zero_minus)

lemma dbl_attach_Done: "attach_to dbl_heap 11 (Some 10) ''center'' = Done dbl_attached"
  unfolding dbl_attached_def
    attach_to_Done [of dbl_heap 10 "''center''" "(Finite 0, Finite 0)" 11, OF dbl_heap_target_point]
  by simp

lemma dbl_target_integrate:
  "integrate dbl_attached 10 (Finite 1) =
     Done (dbl_attached(10 := (dbl_attached 10)\<lparr>position := (Finite 1, Finite 0)\<rparr>))"
  by (simp add: integrate_def dbl_attached_eq)
     (simp add: dbl_heap_def default_object_def v_zero_def dbl_numerals
        dbl_target_x dbl_target_y)

lemma dbl_follow_integrate:
  "integrate (dbl_attached(10 := (dbl_attached 10)\<lparr>position := (Finite 1, Finite 0)\<rparr>)) 11 (Finite 1) =
     Done ((dbl_attached(10 := (dbl_attached 10)\<lparr>position := (Finite 1, Finite 0)\<rparr>))
            (11 := (dbl_attached 11)\<lparr>position := (Finite (2476979795053773 / 2251799813685248), Finite 0),
                                      velocity := (Finite 1, Finite 0)\<rparr>))"
proof -
  let ?h = "dbl_attached(10 := (dbl_attached 10)\<lparr>position := (Finite 1, Finite 0)\<rparr>)"
  have ap: "get_attach_point (?h 10) ''center'' = Inr (Finite 1, Finite 0)"
    by (simp add: get_attach_point_def dbl_attached_eq) (simp add: dbl_heap_def default_object_def)
  have v: "velocity (?h 10) = (Finite 1, Finite 0)"
    by (simp add: dbl_attached_eq) (simp add: dbl_heap_def default_object_def)
  have f: "attached_to (?h 11) = Some 10" "attached_part (?h 11) = Some ''center''"
    "attached_offset (?h 11) = Some (Finite (3602879701896397 / 36028797018963968), Finite 0)"
    by (simp_all add: dbl_attached_eq)
  show ?thesis
    using integrate_attached [of ?h 11 10 "''center''"
        "(Finite (3602879701896397 / 36028797018963968), Finite 0)" "(Finite 1, Finite 0)" "Finite 1"]
      f ap v
    by (simp add: v_add_def dbl_follow_x dbl_zero_plus)
qed

lemma dbl_moved_eq:
  "dbl_moved = (dbl_attached(10 := (dbl_attached 10)\<lparr>position := (Finite 1, Finite 0)\<rparr>))
            (11 := (dbl_attached 11)\<lparr>position := (Finite (2476979795053773 / 2251799813685248), Finite 0),
                                      velocity := (Finite 1, Finite 0)\<rparr>)"
  by (simp add: dbl_moved_def and_then_def dbl_target_integrate dbl_follow_integrate)

lemma dbl_integrate_all_Done: "integrate_all dbl_attached [10, 11] (Finite 1) = Done dbl_moved"
  by (simp add: dbl_moved_def and_then_def dbl_target_integrate dbl_follow_integrate)

text \<open>
  In float arithmetic the difference is not the offset. The ball at \<open>(0.1, 0.0)\<close> is
  attached to a ball at the origin: the offset is \<open>(0.1, 0.0)\<close>. The target moves to
  \<open>(1.0, 0.0)\<close> and the attached ball follows to \<open>1.0 + 0.1\<close>, which rounds to
  \<open>1.100000000000000088817841970012523\<close>; its position minus the attach point is
  \<open>0.100000000000000088817841970012523\<close>, not the offset \<open>0.1\<close>.
\<close>

theorem attachment_rigidity_counterexample:
  "attach_to dbl_heap 11 (Some 10) ''center'' = Done dbl_attached
   \<and> attached_offset (dbl_attached 11) = Some (fl (1/10), Finite 0)
   \<and> integrate_all dbl_attached [10, 11] (Finite 1) = Done dbl_moved
   \<and> get_attach_point (dbl_moved 10) ''center'' = Inr (Finite 1, Finite 0)
   \<and> v_sub (position (dbl_moved 11)) (Finite 1, Finite 0)
        = (Finite (225179981368525 / 2251799813685248), Finite 0)
   \<and> v_sub (position (dbl_moved 11)) (Finite 1, Finite 0) \<noteq> (fl (1/10), Finite 0)"
proof -
  have off: "attached_offset (dbl_attached 11) = Some (fl (1/10), Finite 0)"
    by (simp add: dbl_attached_eq fl_tenth)
  have ap: "get_attach_point (dbl_moved 10) ''center'' = Inr (Finite 1, Finite 0)"
    by (simp add: get_attach_point_def dbl_moved_eq dbl_attached_eq)
       (simp add: dbl_heap_def default_object_def)
  have d: "v_sub (position (dbl_moved 11)) (Finite 1, Finite 0)
        = (Finite (225179981368525 / 2251799813685248), Finite 0)"
    by (simp add: dbl_moved_eq v_sub_def dbl_back_x dbl_zero_minus)
  show ?thesis
    using dbl_attach_Done off dbl_integrate_all_Done ap d dbl_differ
    by (simp add: fl_tenth)
qed

theorem attachment_rigidity_witness:
  "attach_to dbl_heap 11 (Some 10) ''center'' = Done dbl_attached
   \<and> \<not> rebinds 11 (Integrate 10 (Finite 1) :: double operation)
   \<and> \<not> rebinds 11 (Integrate 11 (Finite 1) :: double operation)
   \<and> integrate (run_ops (\<lambda>x y. x) dbl_attached [Integrate 10 (Finite 1), Integrate 11 (Finite 1)])
        11 (Finite 1)
       = Done dbl_moved
   \<and> position (dbl_moved 11) = v_add (Finite 1, Finite 0) (fl (1/10), Finite 0)
   \<and> attach_to ex_heap 11 (Some 10) ''anchor'' = Done ex_attached
   \<and> \<not> rebinds 11 (SetPosition 10 (5, 7) :: real operation)
   \<and> \<not> rebinds 11 (Integrate 11 (1/1000) :: real operation)
   \<and> (10::nat) \<noteq> 11
   \<and> (\<exists>ap g3. integrate (run_ops hypot_real ex_attached
                             [SetPosition 10 (5, 7), Integrate 11 (1/1000)]) 11 (1/1000) = Done g3
         \<and> get_attach_point (g3 10) ''anchor'' = Inr ap
         \<and> v_sub (position (g3 11)) ap = (1, 0))"
proof -
  let ?ops = "[Integrate 10 (Finite 1), Integrate 11 (Finite 1)]"
  let ?gops = "[SetPosition 10 (5, 7), Integrate 11 (1/1000)]"
  have r: "\<forall>ope\<in>set ?ops. \<not> rebinds 11 ope"
    by simp
  have gr: "\<forall>ope\<in>set ?gops. \<not> rebinds 11 ope"
    by simp
  have run: "run_ops (\<lambda>x y. x) dbl_attached ?ops = dbl_moved"
    by (simp add: dbl_target_integrate dbl_follow_integrate dbl_moved_eq)
  have again: "integrate dbl_moved 11 (Finite 1) = Done dbl_moved"
  proof -
    have ap: "get_attach_point (dbl_moved 10) ''center'' = Inr (Finite 1, Finite 0)"
      by (simp add: get_attach_point_def dbl_moved_eq dbl_attached_eq)
         (simp add: dbl_heap_def default_object_def)
    have f: "attached_to (dbl_moved 11) = Some 10" "attached_part (dbl_moved 11) = Some ''center''"
      "attached_offset (dbl_moved 11) = Some (Finite (3602879701896397 / 36028797018963968), Finite 0)"
      "velocity (dbl_moved 10) = (Finite 1, Finite 0)"
      by (simp_all add: dbl_moved_eq dbl_attached_eq) (simp add: dbl_heap_def default_object_def)
    have same: "dbl_moved(11 := (dbl_moved 11)\<lparr>position :=
          (Finite (2476979795053773 / 2251799813685248), Finite 0),
          velocity := (Finite 1, Finite 0)\<rparr>) = dbl_moved"
      by (simp add: dbl_moved_eq)
    show ?thesis
      using integrate_attached [of dbl_moved 11 10 "''center''"
          "(Finite (3602879701896397 / 36028797018963968), Finite 0)" "(Finite 1, Finite 0)" "Finite 1"]
        f ap
      by (simp add: v_add_def dbl_follow_x dbl_zero_plus same)
  qed
  have pos: "position (dbl_moved 11) = v_add (Finite 1, Finite 0) (fl (1/10), Finite 0)"
    by (simp add: dbl_moved_eq v_add_def fl_tenth dbl_follow_x dbl_zero_plus)
  have ap0: "get_attach_point (ex_heap 10) ''anchor'' = Inr (0, 0)"
    by (rule ex_heap_anchor_point)
  have p0: "position (ex_heap 11) = (1, 0)"
    by (simp add: ex_heap_def default_object_def)
  from attachment_rigidity [where hs = ex_heap and self = 11 and t = 10 and part = "''anchor''"
      and ha = ex_attached and opes = ?gops and hypot = hypot_real and dt = "1/1000"
      and gs = ex_heap and ga = ex_attached and gopes = ?gops and gdt = "1/1000"]
  have "\<exists>ap0 ap g3. get_attach_point (ex_heap 10) ''anchor'' = Inr ap0
      \<and> integrate (run_ops hypot_real ex_attached ?gops) 11 (1/1000) = Done g3
      \<and> attached_offset (g3 11) = Some (v_sub (position (ex_heap 11)) ap0)
      \<and> get_attach_point (g3 10) ''anchor'' = Inr ap
      \<and> v_sub (position (g3 11)) ap = v_sub (position (ex_heap 11)) ap0"
    using ex_attach_Done gr by (simp del: run_ops.simps)
  then have "\<exists>ap g3. integrate (run_ops hypot_real ex_attached ?gops) 11 (1/1000) = Done g3
      \<and> get_attach_point (g3 10) ''anchor'' = Inr ap
      \<and> v_sub (position (g3 11)) ap = (1, 0)"
    using ap0 p0 by (auto simp: v_sub_def simp del: run_ops.simps)
  then show ?thesis
    using dbl_attach_Done r gr run again pos ex_attach_Done
    by (simp del: run_ops.simps)
qed

subsection \<open>Forces, over exact numbers and over floats\<close>

lemma dbl_zero_le_zero: "(0::double) \<le> 0"
  by (simp add: zero_double_def less_eq_double.simps)

lemma dbl_push_x: "Finite 1 + Finite 3 / Finite 1 * Finite 1 = Finite 4"
  by code_simp

lemma dbl_push_y: "Finite 0 + Finite 4 / Finite 1 * Finite 1 = Finite 4"
  by code_simp

theorem apply_force_spec_witness:
  "(0::real) \<le> 0
   \<and> apply_force ex_heap 11 (2, 4) (1/2) = Done (ex_heap(11 := (ex_heap 11)\<lparr>velocity := (1, 2)\<rparr>))
   \<and> apply_force ex_heap 10 (2, 4) (1/2) = Done ex_heap
   \<and> (0::double) \<le> 0
   \<and> apply_force dbl_heap 10 (Finite 3, Finite 4) (Finite 1) =
       Done (dbl_heap(10 := (dbl_heap 10)\<lparr>velocity := (Finite 4, Finite 4)\<rparr>))"
proof -
  have r: "(0::real) \<le> 0" by simp
  have m: "mass (dbl_heap 10) = Finite 1" "velocity (dbl_heap 10) = (Finite 1, Finite 0)"
    "\<not> fixed (dbl_heap 10)" "attached_to (dbl_heap 10) = None"
    by (simp_all add: dbl_heap_def default_object_def dbl_numerals)
  have pos: "\<not> Finite 1 \<le> (0::double)"
    by (simp add: zero_double_def less_eq_double.simps)
  show ?thesis
    using r dbl_zero_le_zero
      apply_force_spec [OF r, of ex_heap 11 "(2, 4)" "1/2"]
      apply_force_spec [OF r, of ex_heap 10 "(2, 4)" "1/2"]
      apply_force_spec [OF dbl_zero_le_zero, of dbl_heap 10 "(Finite 3, Finite 4)" "Finite 1"]
    by (simp add: m pos dbl_push_x dbl_push_y)
       (simp add: ex_heap_def default_object_def v_zero_def)
qed

subsection \<open>Attaching again without detaching\<close>

lemma run_op_saved:
  assumes "\<not> rebinds i ope"
  shows "fixed (heap_of (run_op hypot h ope) i) = fixed (h i)
    \<and> previous_fixed_state (heap_of (run_op hypot h ope) i) = previous_fixed_state (h i)"
proof (cases ope)
  case (ApplyForce j f dt)
  then show ?thesis
    using same_but_motion_fields [OF apply_force_motion [of h i j f dt]] by simp
next
  case (Integrate j dt)
  then show ?thesis
    using same_but_motion_fields [OF integrate_motion [of h i j dt]] by simp
next
  case (AttachTo j t p)
  then show ?thesis
    using assms by (auto simp: attach_to_def Let_def split: option.splits sum.splits)
next
  case (Detach j)
  then show ?thesis
    using assms by (auto simp: detach_def Let_def split: option.splits)
next
  case (SpringApply c dt)
  then show ?thesis
    using same_but_motion_fields [OF apply_spring_motion [of h i hypot c dt]] by simp
next
  case (Step obs cs dt)
  then show ?thesis
    using same_but_motion_fields [OF step_motion [of h i hypot obs cs dt]] by simp
next
  case (SetPosition j p)
  then show ?thesis by simp
next
  case (SetVelocity j v)
  then show ?thesis by simp
qed

lemma run_ops_saved:
  "\<forall>ope\<in>set opes. \<not> rebinds i ope \<Longrightarrow>
     fixed (run_ops hypot h opes i) = fixed (h i)
     \<and> previous_fixed_state (run_ops hypot h opes i) = previous_fixed_state (h i)"
proof (induction opes arbitrary: h)
  case Nil
  show ?case by simp
next
  case (Cons ope opes)
  then have one: "\<not> rebinds i ope" and rest: "\<forall>x\<in>set opes. \<not> rebinds i x"
    by simp_all
  show ?case
    using Cons.IH [OF rest, of "heap_of (run_op hypot h ope)"]
      run_op_saved [OF one, of hypot h]
    by simp
qed

lemma detach_attached:
  "attached_to (h self) = Some t \<Longrightarrow> previous_fixed_state (h self) = Some f \<Longrightarrow>
   detach h self =
     Done (h(self := (h self)\<lparr>velocity := velocity (h t),
              attached_to := None, attached_part := None, attached_offset := None,
              fixed := f, previous_fixed_state := None\<rparr>))"
  by (simp add: detach_def Let_def)

text \<open>
  Claim C4. A first \<open>attach_to\<close> saves the \<open>fixed\<close> flag the object had and leaves the
  object attached and fixed. On every object that is attached, and so fixed, a further
  \<open>attach_to\<close> saves \<open>True\<close> over whatever was saved. After any calls that neither attach
  nor detach the object, the saved value is still \<open>True\<close>, and \<open>detach\<close> then copies the
  target's velocity, clears the attachment, sets \<open>fixed\<close> to the saved \<open>True\<close> and clears
  the saved value: the flag the object had before its first attachment is not restored.
\<close>

theorem reattach_quirk:
  "(attach_to hs self (Some t1) p1 = Done h \<longrightarrow>
      attached_to (h self) \<noteq> None \<and> fixed_while_attached (h self)
      \<and> previous_fixed_state (h self) = Some (fixed (hs self)))
   \<and> (attached_to (h self) \<noteq> None \<and> fixed_while_attached (h self)
       \<and> attach_to h self (Some t) part = Done ha
       \<and> (\<forall>ope\<in>set opes. \<not> rebinds self ope) \<longrightarrow>
      previous_fixed_state (ha self) = Some True
      \<and> previous_fixed_state (run_ops hypot ha opes self) = Some True
      \<and> detach (run_ops hypot ha opes) self =
          Done ((run_ops hypot ha opes)(self := (run_ops hypot ha opes self)
                  \<lparr>velocity := velocity (run_ops hypot ha opes t),
                   attached_to := None, attached_part := None, attached_offset := None,
                   fixed := True, previous_fixed_state := None\<rparr>)))"
proof (rule conjI)
  show "attach_to hs self (Some t1) p1 = Done h \<longrightarrow>
      attached_to (h self) \<noteq> None \<and> fixed_while_attached (h self)
      \<and> previous_fixed_state (h self) = Some (fixed (hs self))"
    by (auto simp: attach_to_def Let_def fixed_while_attached_def split: sum.splits)
next
  show "attached_to (h self) \<noteq> None \<and> fixed_while_attached (h self)
       \<and> attach_to h self (Some t) part = Done ha
       \<and> (\<forall>ope\<in>set opes. \<not> rebinds self ope) \<longrightarrow>
      previous_fixed_state (ha self) = Some True
      \<and> previous_fixed_state (run_ops hypot ha opes self) = Some True
      \<and> detach (run_ops hypot ha opes) self =
          Done ((run_ops hypot ha opes)(self := (run_ops hypot ha opes self)
                  \<lparr>velocity := velocity (run_ops hypot ha opes t),
                   attached_to := None, attached_part := None, attached_offset := None,
                   fixed := True, previous_fixed_state := None\<rparr>))"
  proof (rule impI)
  assume a: "attached_to (h self) \<noteq> None \<and> fixed_while_attached (h self)
       \<and> attach_to h self (Some t) part = Done ha
       \<and> (\<forall>ope\<in>set opes. \<not> rebinds self ope)"
  then have fx: "fixed (h self)"
    by (simp add: fixed_while_attached_def)
  from a obtain ap where ha: "ha = h(self := (h self)\<lparr>previous_fixed_state := Some (fixed (h self)),
               attached_to := Some t, attached_part := Some part,
               attached_offset := Some (v_sub (position (h self)) ap), fixed := True\<rparr>)"
    using attach_to_Done_cases [of h self t part ha] by blast
  have s1: "previous_fixed_state (ha self) = Some True" "attached_to (ha self) = Some t"
    by (simp_all add: ha fx)
  let ?hb = "run_ops hypot ha opes"
  have s2: "previous_fixed_state (?hb self) = Some True"
    using run_ops_saved [of opes self hypot ha] a s1 by simp
  have t2: "attached_to (?hb self) = Some t"
    using run_ops_attachment [of opes self hypot ha] a s1 by simp
  show "previous_fixed_state (ha self) = Some True
      \<and> previous_fixed_state (?hb self) = Some True
      \<and> detach ?hb self =
          Done (?hb(self := (?hb self)
                  \<lparr>velocity := velocity (?hb t),
                   attached_to := None, attached_part := None, attached_offset := None,
                   fixed := True, previous_fixed_state := None\<rparr>))"
    using s1 s2 t2 detach_attached [of ?hb self t True] by simp
  qed
qed

lemma ex_moved_fields:
  "attached_to (ex_moved 11) = Some 10" "fixed (ex_moved 11)" "ex_moved 12 = ex_heap 12"
  "position (ex_moved 11) = (3, 4)"
  by (simp_all add: ex_moved_def ex_attached_eq)

lemma ex_moved_box_point: "get_attach_point (ex_moved 12) ''top_left'' = Inr (- 1, - 2)"
  by (simp add: ex_moved_fields get_attach_point_def ex_heap_def default_object_def v_zero_def)

lemma ex_moved_reattach_Done:
  "attach_to ex_moved 11 (Some 12) ''top_left'' = Done ex_moved_reattached"
  unfolding ex_moved_reattached_def
    attach_to_Done [of ex_moved 12 "''top_left''" "(- 1, - 2)" 11, OF ex_moved_box_point]
  by simp

theorem reattach_quirk_witness:
  "\<not> fixed (ex_heap 11)
   \<and> attach_to ex_heap 11 (Some 10) ''anchor'' = Done ex_attached
   \<and> previous_fixed_state (ex_attached 11) = Some False
   \<and> attached_to (ex_moved 11) \<noteq> None \<and> fixed_while_attached (ex_moved 11)
   \<and> attach_to ex_moved 11 (Some 12) ''top_left'' = Done ex_moved_reattached
   \<and> \<not> rebinds 11 (Integrate 11 (1/1000) :: real operation)
   \<and> \<not> rebinds 11 (Detach 12 :: real operation)
   \<and> previous_fixed_state (ex_moved_reattached 11) = Some True
   \<and> fixed (heap_of (detach (run_ops hypot_real ex_moved_reattached
                                [Integrate 11 (1/1000), Detach 12]) 11) 11)
   \<and> previous_fixed_state (heap_of (detach (run_ops hypot_real ex_moved_reattached
                                [Integrate 11 (1/1000), Detach 12]) 11) 11) = None
   \<and> attached_to (heap_of (detach (run_ops hypot_real ex_moved_reattached
                                [Integrate 11 (1/1000), Detach 12]) 11) 11) = None"
proof -
  have nf: "\<not> fixed (ex_heap 11)"
    by (simp add: ex_heap_def default_object_def)
  have inv: "attached_to (ex_moved 11) \<noteq> None" "fixed_while_attached (ex_moved 11)"
    by (simp_all add: ex_moved_fields fixed_while_attached_def)
  have r: "\<forall>ope\<in>set [Integrate 11 (1/1000), Detach 12 :: real operation]. \<not> rebinds 11 ope"
    by simp
  have first: "previous_fixed_state (ex_attached 11) = Some False"
    using reattach_quirk [where hs = ex_heap and self = 11 and ?t1.0 = 10 and ?p1.0 = "''anchor''"
        and h = ex_attached and t = 12 and part = "''top_left''" and ha = ex_attached
        and opes = "[]" and hypot = hypot_real]
      ex_attach_Done nf
    by simp
  have second: "previous_fixed_state (ex_moved_reattached 11) = Some True
      \<and> detach (run_ops hypot_real ex_moved_reattached [Integrate 11 (1/1000), Detach 12]) 11 =
          Done ((run_ops hypot_real ex_moved_reattached [Integrate 11 (1/1000), Detach 12])
            (11 := (run_ops hypot_real ex_moved_reattached [Integrate 11 (1/1000), Detach 12] 11)
                  \<lparr>velocity := velocity (run_ops hypot_real ex_moved_reattached
                                 [Integrate 11 (1/1000), Detach 12] 12),
                   attached_to := None, attached_part := None, attached_offset := None,
                   fixed := True, previous_fixed_state := None\<rparr>))"
    using reattach_quirk [where hs = ex_heap and self = 11 and ?t1.0 = 10 and ?p1.0 = "''anchor''"
        and h = ex_moved and t = 12 and part = "''top_left''" and ha = ex_moved_reattached
        and opes = "[Integrate 11 (1/1000), Detach 12]" and hypot = hypot_real]
      inv ex_moved_reattach_Done r
    by (simp del: run_ops.simps)
  show ?thesis
    using nf ex_attach_Done first inv ex_moved_reattach_Done second
    by (simp del: run_ops.simps)
qed

subsection \<open>Springs at rest, over floats\<close>

lemma fl_zero: "fl 0 = Finite 0"
  by (simp add: fl_def)

lemma dbl_sub_self: "is_finite r \<Longrightarrow> r - r = 0"
  by (cases r) (simp_all add: minus_double_def uminus_double.simps plus_double.simps
      zero_double_def fl_zero)

lemma dbl_zero_times: "is_finite d \<Longrightarrow> 0 * d = 0" "is_finite d \<Longrightarrow> d * 0 = 0"
  by (cases d; simp add: times_double.simps zero_double_def fl_zero)+

lemma dbl_neg_finite: "is_finite k \<Longrightarrow> is_finite (- k)"
  by (cases k) (simp_all add: uminus_double.simps)

lemma dbl_zero_arith: "- (0::double) = 0" "(0::double) + 0 = 0" "(0::double) - 0 = 0"
  "(0::double) * 0 = 0" "(0::double) * (- 1) = 0"
  by (simp_all add: minus_double_def uminus_double.simps plus_double.simps times_double.simps
      zero_double_def one_double_def fl_zero)

lemma dbl_zero_div: "m \<noteq> NaN \<Longrightarrow> \<not> m \<le> 0 \<Longrightarrow> 0 / m = 0"
  by (cases m) (simp_all add: divide_double.simps less_eq_double.simps zero_double_def fl_zero)

lemma dbl_add_zero: "is_binary64 p \<Longrightarrow> p + 0 = p"
  by (cases p) (simp_all add: is_binary64_def plus_double.simps zero_double_def)

lemma apply_force_null_dbl:
  fixes h :: "double heap"
  assumes "is_finite dt" "mass (h i) \<noteq> NaN" "velocity (h i) = (0, 0)"
  shows "apply_force h i (0, 0) dt = Done h"
proof -
  have same: "h(i := (h i)\<lparr>velocity := (0, 0)\<rparr>) = h"
    using assms(3) by (metis PhysicsObject.surjective PhysicsObject.update_convs(2) fun_upd_triv)
  show ?thesis
    using assms same
    by (simp add: apply_force_def py_div_def dbl_zero_div dbl_zero_times dbl_zero_arith
        dbl_zero_le_zero)
qed

lemma apply_spring_rest_dbl:
  fixes h :: "double heap"
  assumes vel: "velocity (h (obj_a c)) = (0, 0)" "velocity (h (obj_b c)) = (0, 0)"
    and rest: "rest_length c = Some r" "damping c = 0"
    and len: "v_len hypot (v_sub (position (h (obj_b c))) (position (h (obj_a c)))) = r"
    and fin: "is_finite r" "is_finite (stiffness c)" "is_finite dt"
    and ms: "mass (h (obj_a c)) \<noteq> NaN" "mass (h (obj_b c)) \<noteq> NaN"
    and dir: "finite_direction (v_sub (position (h (obj_b c))) (position (h (obj_a c)))) r"
  shows "apply_spring hypot h c dt = Done h"
proof (cases "r = 0")
  case True
  then show ?thesis
    using len by (simp add: apply_spring_def Let_def)
next
  case False
  let ?delta = "v_sub (position (h (obj_b c))) (position (h (obj_a c)))"
  have d: "is_finite (fst ?delta / r)" "is_finite (snd ?delta / r)"
    using dir False by (simp_all add: finite_direction_def)
  have force: "(- stiffness c) * (r - r) = 0"
    using fin by (simp add: dbl_sub_self dbl_zero_times dbl_neg_finite)
  have damp: "(- damping c) * ((0 - 0) * (fst ?delta / r) + (0 - 0) * (snd ?delta / r)) = 0"
    using d rest by (simp add: dbl_zero_arith dbl_zero_times)
  have push: "apply_force h (obj_a c) (0, 0) dt = Done h" "apply_force h (obj_b c) (0, 0) dt = Done h"
    using apply_force_null_dbl [of dt h "obj_a c"] apply_force_null_dbl [of dt h "obj_b c"]
      fin ms vel by simp_all
  show ?thesis
    using False len rest vel d
    by (simp add: apply_spring_def Let_def py_div_def v_sub_def v_scale_def and_then_def
        force damp dbl_zero_arith dbl_zero_times push)
qed

lemma apply_all_rest_dbl:
  fixes h :: "double heap"
  assumes "velocity (h (obj_a c)) = (0, 0)" "velocity (h (obj_b c)) = (0, 0)"
    "rest_length c = Some r" "damping c = 0"
    "v_len hypot (v_sub (position (h (obj_b c))) (position (h (obj_a c)))) = r"
    "is_finite r" "is_finite (stiffness c)" "is_finite dt"
    "mass (h (obj_a c)) \<noteq> NaN" "mass (h (obj_b c)) \<noteq> NaN"
    "finite_direction (v_sub (position (h (obj_b c))) (position (h (obj_a c)))) r"
    "set cs \<subseteq> {c}"
  shows "apply_all hypot h cs dt = Done h"
  using assms(12)
proof (induction cs)
  case Nil
  show ?case by simp
next
  case (Cons x cs)
  then have "x = c" "set cs \<subseteq> {c}" by auto
  then show ?case
    using Cons.IH apply_spring_rest_dbl [OF assms(1-11)] by (simp add: and_then_def)
qed

lemma integrate_rest_dbl:
  fixes h :: "double heap"
  assumes "attached_to (h i) = None" "velocity (h i) = (0, 0)" "is_finite dt"
    "float_position (h i)"
  shows "integrate h i dt = Done h"
proof -
  have "h(i := (h i)\<lparr>position := (fst (position (h i)), snd (position (h i)))\<rparr>) = h"
    by simp
  then show ?thesis
    using assms
    by (simp add: integrate_def float_position_def dbl_zero_times dbl_add_zero)
qed

lemma integrate_all_rest_dbl:
  fixes h :: "double heap"
  assumes "\<forall>i\<in>set obs. attached_to (h i) = None \<and> velocity (h i) = (0, 0) \<and> float_position (h i)"
    "is_finite dt"
  shows "integrate_all h obs dt = Done h"
  using assms by (induction obs) (simp_all add: integrate_rest_dbl and_then_def)

lemma step_rest_dbl:
  fixes h :: "double heap"
  assumes "attached_to (h (obj_a c)) = None" "attached_to (h (obj_b c)) = None"
    "velocity (h (obj_a c)) = (0, 0)" "velocity (h (obj_b c)) = (0, 0)"
    "rest_length c = Some r" "damping c = 0"
    "v_len hypot (v_sub (position (h (obj_b c))) (position (h (obj_a c)))) = r"
    "is_finite r" "is_finite (stiffness c)" "is_finite dt"
    "mass (h (obj_a c)) \<noteq> NaN" "mass (h (obj_b c)) \<noteq> NaN"
    "float_position (h (obj_a c))" "float_position (h (obj_b c))"
    "finite_direction (v_sub (position (h (obj_b c))) (position (h (obj_a c)))) r"
    "set objects \<subseteq> {obj_a c, obj_b c}" "set cs \<subseteq> {c}"
  shows "step hypot h objects cs dt = Done h"
proof -
  have "apply_all hypot h cs dt = Done h"
    using apply_all_rest_dbl [of h c r hypot dt cs] assms by simp
  moreover have "integrate_all h objects dt = Done h"
    using integrate_all_rest_dbl [of objects h dt] assms by auto
  ultimately show ?thesis by (simp add: step_def and_then_def)
qed

lemma steps_rest_dbl:
  fixes h :: "double heap"
  assumes "attached_to (h (obj_a c)) = None" "attached_to (h (obj_b c)) = None"
    "velocity (h (obj_a c)) = (0, 0)" "velocity (h (obj_b c)) = (0, 0)"
    "rest_length c = Some r" "damping c = 0"
    "v_len hypot (v_sub (position (h (obj_b c))) (position (h (obj_a c)))) = r"
    "is_finite r" "is_finite (stiffness c)" "is_finite dt"
    "mass (h (obj_a c)) \<noteq> NaN" "mass (h (obj_b c)) \<noteq> NaN"
    "float_position (h (obj_a c))" "float_position (h (obj_b c))"
    "finite_direction (v_sub (position (h (obj_b c))) (position (h (obj_a c)))) r"
    "set objects \<subseteq> {obj_a c, obj_b c}" "set cs \<subseteq> {c}"
  shows "steps hypot h objects cs dt n = Done h"
  using step_rest_dbl [OF assms] by (induction n) (simp_all add: and_then_def)

text \<open>
  Claim C8. Two objects that are not attached, at rest, joined by a spring without damping
  whose rest length \<open>r\<close> is their distance as \<open>v_len\<close> computes it. Over floats, for every
  \<open>math.hypot\<close>: when the rest length, the stiffness and the time step are finite, no mass
  is \<open>nan\<close>, the positions are floats and the unit direction of the spring is finite,
  every step over these objects and this spring returns the heap it was given, and so does
  every number of steps: the separation stays \<open>r\<close> and the velocities stay zero. Over exact
  arithmetic the same holds for every stiffness, time step and mass.
\<close>

theorem spring_equilibrium:
  fixes h :: "double heap" and g :: "real heap"
  shows "(attached_to (h (obj_a c)) = None \<and> attached_to (h (obj_b c)) = None
          \<and> velocity (h (obj_a c)) = (0, 0) \<and> velocity (h (obj_b c)) = (0, 0)
          \<and> rest_length c = Some r \<and> damping c = 0
          \<and> v_len hypot (v_sub (position (h (obj_b c))) (position (h (obj_a c)))) = r
          \<and> is_finite r \<and> is_finite (stiffness c) \<and> is_finite dt
          \<and> mass (h (obj_a c)) \<noteq> NaN \<and> mass (h (obj_b c)) \<noteq> NaN
          \<and> float_position (h (obj_a c)) \<and> float_position (h (obj_b c))
          \<and> finite_direction (v_sub (position (h (obj_b c))) (position (h (obj_a c)))) r
          \<and> set objects \<subseteq> {obj_a c, obj_b c} \<and> set cs \<subseteq> {c} \<longrightarrow>
            steps hypot h objects cs dt n = Done h)
     \<and> (attached_to (g (obj_a d)) = None \<and> attached_to (g (obj_b d)) = None
          \<and> velocity (g (obj_a d)) = (0, 0) \<and> velocity (g (obj_b d)) = (0, 0)
          \<and> rest_length d = Some r0 \<and> damping d = 0
          \<and> v_len hypot_real (v_sub (position (g (obj_b d))) (position (g (obj_a d)))) = r0
          \<and> set gobjects \<subseteq> {obj_a d, obj_b d} \<and> set ds \<subseteq> {d} \<longrightarrow>
            steps hypot_real g gobjects ds gdt m = Done g)"
  using steps_rest_dbl [of h c r hypot dt objects cs n] steps_rest [of g d r0 gobjects ds gdt m]
  by blast

lemma fl_root_one: "fl_root 1 = Finite 1"
  by code_simp

lemma hypot_unit: "hypot_double (Finite 1) (Finite 0) = Finite 1"
  by (simp add: fl_root_one)

lemma fl_one: "fl 1 = Finite 1"
  by code_simp

lemma dbl_rest_fields:
  "position (dbl_rest 10) = (Finite 0, Finite 0)" "position (dbl_rest 11) = (Finite 1, Finite 0)"
  "velocity (dbl_rest 10) = (0, 0)" "velocity (dbl_rest 11) = (0, 0)"
  "mass (dbl_rest 10) = Finite 1" "mass (dbl_rest 11) = Finite 1"
  "attached_to (dbl_rest 10) = None" "attached_to (dbl_rest 11) = None"
  "\<not> fixed (dbl_rest 10)" "\<not> fixed (dbl_rest 11)"
  by (simp_all add: dbl_rest_def default_object_def v_zero_def dbl_numerals)

lemma dbl_rest_delta:
  "v_sub (position (dbl_rest 11)) (position (dbl_rest 10)) = (Finite 1, Finite 0)"
  by (simp add: dbl_rest_fields v_sub_def minus_double_def uminus_double.simps
      plus_double.simps fl_one fl_zero)

lemma dbl_rest_length:
  "v_len hypot_double (v_sub (position (dbl_rest 11)) (position (dbl_rest 10))) = Finite 1"
  by (simp add: dbl_rest_delta v_len_def fl_root_one)

lemmas dbl_arith = minus_double_def uminus_double.simps plus_double.simps times_double.simps
  divide_double.simps less_eq_double.simps zero_double_def one_double_def fl_zero fl_one

lemma dbl_rest_rel:
  "v_sub (velocity (dbl_rest 11)) (velocity (dbl_rest 10)) = (Finite 0, Finite 0)"
  by (simp add: dbl_rest_fields v_sub_def dbl_arith)

lemma dbl_stiff_apply:
  "apply_spring hypot_double dbl_rest dbl_stiff (Finite 1) =
     Done (dbl_rest(10 := (dbl_rest 10)\<lparr>velocity := (NaN, NaN)\<rparr>,
                    11 := (dbl_rest 11)\<lparr>velocity := (NaN, NaN)\<rparr>))"
proof -
  have ends: "obj_a dbl_stiff = 10" "obj_b dbl_stiff = 11"
    "rest_length dbl_stiff = Some (Finite 1)" "damping dbl_stiff = Finite 0"
    "stiffness dbl_stiff = PInf"
    by (simp_all add: dbl_stiff_def)
  show ?thesis
    by (simp add: apply_spring_def Let_def ends dbl_rest_delta dbl_rest_rel v_len_def fl_root_one
        py_div_def v_sub_def v_scale_def and_then_def apply_force_def dbl_rest_fields dbl_arith)
qed

lemma dbl_stiff_step:
  "step hypot_double dbl_rest [10, 11] [dbl_stiff] (Finite 1) =
     Done (dbl_rest(10 := (dbl_rest 10)\<lparr>velocity := (NaN, NaN), position := (NaN, NaN)\<rparr>,
                    11 := (dbl_rest 11)\<lparr>velocity := (NaN, NaN), position := (NaN, NaN)\<rparr>))"
  by (simp add: step_def dbl_stiff_apply and_then_def integrate_def dbl_rest_fields dbl_arith
      fun_upd_twist)

lemma dbl_blown_eq:
  "dbl_blown = dbl_rest(10 := (dbl_rest 10)\<lparr>velocity := (NaN, NaN), position := (NaN, NaN)\<rparr>,
                        11 := (dbl_rest 11)\<lparr>velocity := (NaN, NaN), position := (NaN, NaN)\<rparr>)"
  by (simp add: dbl_blown_def dbl_stiff_step)

lemma dbl_rest_float:
  "float_position (dbl_rest 10)" "float_position (dbl_rest 11)"
  "finite_direction (v_sub (position (dbl_rest 11)) (position (dbl_rest 10))) (Finite 1)"
  by (simp_all add: float_position_def is_binary64_def finite_direction_def v_sub_def
      dbl_rest_fields dbl_arith)

text \<open>
  With an infinite stiffness the spring at rest does not stay at rest. Two free balls with
  zero velocity at \<open>(0.0, 0.0)\<close> and \<open>(1.0, 0.0)\<close>, a spring of rest length \<open>1.0\<close>,
  stiffness \<open>float('inf')\<close> and no damping: the stretch is \<open>1.0 - 1.0 = 0.0\<close>, the force
  \<open>-inf * 0.0\<close> is \<open>nan\<close>, and one step makes every velocity and every position \<open>nan\<close>.
\<close>

theorem spring_equilibrium_counterexample:
  "attached_to (dbl_rest 10) = None \<and> attached_to (dbl_rest 11) = None
   \<and> \<not> fixed (dbl_rest 10) \<and> \<not> fixed (dbl_rest 11)
   \<and> velocity (dbl_rest 10) = (0, 0) \<and> velocity (dbl_rest 11) = (0, 0)
   \<and> mass (dbl_rest 10) = Finite 1 \<and> mass (dbl_rest 11) = Finite 1
   \<and> float_position (dbl_rest 10) \<and> float_position (dbl_rest 11)
   \<and> obj_a dbl_stiff = 10 \<and> obj_b dbl_stiff = 11
   \<and> rest_length dbl_stiff = Some (Finite 1) \<and> damping dbl_stiff = 0
   \<and> stiffness dbl_stiff = PInf
   \<and> v_len hypot_double (v_sub (position (dbl_rest 11)) (position (dbl_rest 10))) = Finite 1
   \<and> finite_direction (v_sub (position (dbl_rest 11)) (position (dbl_rest 10))) (Finite 1)
   \<and> step hypot_double dbl_rest [10, 11] [dbl_stiff] (Finite 1) = Done dbl_blown
   \<and> velocity (dbl_blown 10) = (NaN, NaN) \<and> velocity (dbl_blown 11) = (NaN, NaN)
   \<and> v_len hypot_double (v_sub (position (dbl_blown 11)) (position (dbl_blown 10))) = NaN"
proof -
  have before: "attached_to (dbl_rest 10) = None \<and> attached_to (dbl_rest 11) = None
      \<and> \<not> fixed (dbl_rest 10) \<and> \<not> fixed (dbl_rest 11)
      \<and> velocity (dbl_rest 10) = (0, 0) \<and> velocity (dbl_rest 11) = (0, 0)
      \<and> mass (dbl_rest 10) = Finite 1 \<and> mass (dbl_rest 11) = Finite 1"
    by (simp add: dbl_rest_fields)
  have spring: "obj_a dbl_stiff = 10 \<and> obj_b dbl_stiff = 11
      \<and> rest_length dbl_stiff = Some (Finite 1) \<and> damping dbl_stiff = 0
      \<and> stiffness dbl_stiff = PInf"
    by (simp add: dbl_stiff_def dbl_numerals)
  have after: "step hypot_double dbl_rest [10, 11] [dbl_stiff] (Finite 1) = Done dbl_blown"
    by (simp add: dbl_blown_eq dbl_stiff_step)
  have vel: "velocity (dbl_blown 10) = (NaN, NaN)" "velocity (dbl_blown 11) = (NaN, NaN)"
    by (simp_all add: dbl_blown_eq)
  have sep: "v_len hypot_double (v_sub (position (dbl_blown 11)) (position (dbl_blown 10))) = NaN"
    by (simp add: dbl_blown_eq v_len_def v_sub_def dbl_arith)
  show ?thesis
    using before spring dbl_rest_float dbl_rest_length after vel sep by simp
qed

theorem spring_equilibrium_witness:
  "v_len hypot_double (v_sub (position (dbl_rest 11)) (position (dbl_rest 10))) = Finite 1
   \<and> stiffness dbl_soft = Finite 100
   \<and> steps hypot_double dbl_rest [10, 11] [dbl_soft] (Finite 1) 3 = Done dbl_rest
   \<and> v_len hypot_real (v_sub (position (ex_heap 12)) (position (ex_heap 11))) = 1
   \<and> steps hypot_real ex_heap [11, 12] [ex_spring] (1/1000) 3 = Done ex_heap"
proof -
  have soft: "obj_a dbl_soft = 10" "obj_b dbl_soft = 11"
    "rest_length dbl_soft = Some (Finite 1)" "damping dbl_soft = 0"
    "stiffness dbl_soft = Finite 100"
    by (simp_all add: dbl_soft_def dbl_numerals)
  have ends: "obj_a ex_spring = 11" "obj_b ex_spring = 12"
    "rest_length ex_spring = Some 1" "damping ex_spring = 0"
    by (simp_all add: ex_spring_def)
  have free: "attached_to (ex_heap 11) = None" "attached_to (ex_heap 12) = None"
    "velocity (ex_heap 11) = (0, 0)" "velocity (ex_heap 12) = (0, 0)"
    by (simp_all add: ex_heap_def default_object_def v_zero_def)
  have len: "v_len hypot_real (v_sub (position (ex_heap 12)) (position (ex_heap 11))) = 1"
    by (simp add: ex_heap_def default_object_def v_zero_def v_len_def v_sub_def hypot_real_def)
  show ?thesis
    using len dbl_rest_length dbl_rest_float
      spring_equilibrium [where h = dbl_rest and c = dbl_soft and r = "Finite 1"
        and hypot = hypot_double and dt = "Finite 1" and objects = "[10, 11]"
        and cs = "[dbl_soft]" and n = 3 and g = ex_heap and d = ex_spring and ?r0.0 = 1
        and gobjects = "[11, 12]" and ds = "[ex_spring]" and gdt = "1/1000" and m = 3]
    by (simp add: soft ends free dbl_rest_fields)
qed

end
